theory Spec2Isabelle
  imports Complex_Main "HOL-Library.AList"
begin

section \<open>Plot-level extractor base: shallow embedding of extractor_base.py\<close>

text \<open>
  A function that bears the name of a function of
  \<^verbatim>\<open>docker/extractor_plot_base_cyverse/extractor_base.py\<close> is its translation (a
  leading underscore is dropped, since an Isabelle name starts with a letter); the
  others are its loops and blocks, or operations of Python and its libraries, each
  introduced where it is used. Exceptions are values of \<open>pyexn\<close>; a function that may
  raise returns \<open>pyexn + 'a\<close>, or the exception beside the state it leaves. A
  finite Python float is the rational number it denotes; the operations on floats
  that round are not computed but taken from the environment, and where the source
  compares with NaN the float carries an explicit NaN (type \<open>pyfloat\<close>).
\<close>

datatype pyexn =
    RuntimeError | UnboundLocalError | TypeError | ValueError | KeyError
  | IndexError | HTTPError | IOError | NotImplementedError | OtherError

subsection \<open>Module constants\<close>

definition MAX_CSV_FILE_OPEN_TRIES :: nat where
  "MAX_CSV_FILE_OPEN_TRIES = 10"

definition MAX_FILE_OPEN_SLEEP_SEC :: rat where
  "MAX_FILE_OPEN_SLEEP_SEC = 30"

subsection \<open>Files, handles and the environment's choices\<close>

text \<open>
  The state the functions act on: the text of each file on disk (absent when the file
  does not exist), the number of open handles, the text written through the open handle
  and not yet on disk (Python buffers a file; the text reaches the disk when the file is
  closed), how many times \<^verbatim>\<open>open\<close>, \<^verbatim>\<open>write\<close>, \<^verbatim>\<open>close\<close> and the random generator were
  called, the \<^verbatim>\<open>time.sleep\<close> calls made, and the payloads posted to the trait database.

  What the environment decides is an \<open>env\<close>, which the code cannot change: whether the
  n-th \<^verbatim>\<open>open\<close>, \<^verbatim>\<open>write\<close> or \<^verbatim>\<open>close\<close> raises; how many characters of the buffered text
  reach the file when the n-th \<^verbatim>\<open>close\<close> raises; the n-th random number; and the
  arithmetic of binary64 floats, namely the product and the quotient of two floats
  (\<open>fmul\<close>, \<open>fdiv\<close>: the float nearest to the exact result, whatever the rounding
  gives) and the float that the literal \<^verbatim>\<open>0.1\<close> denotes (\<open>float_0_1\<close>). Infinities and
  NaN are not values of these operations.
\<close>

record world =
  disk :: "string \<Rightarrow> string option"
  handles :: nat
  buffered :: string
  opens :: nat
  writes :: nat
  closes :: nat
  draws :: nat
  slept :: "rat list"
  posted :: "string list"

record env =
  open_raises :: "nat \<Rightarrow> bool"
  write_raises :: "nat \<Rightarrow> bool"
  close_raises :: "nat \<Rightarrow> bool"
  flushed :: "nat \<Rightarrow> nat"
  random_draw :: "nat \<Rightarrow> rat"
  fmul :: "rat \<Rightarrow> rat \<Rightarrow> rat"
  fdiv :: "rat \<Rightarrow> rat \<Rightarrow> rat"
  float_0_1 :: rat

definition content :: "world \<Rightarrow> string \<Rightarrow> string" where
  "content w fn = (case disk w fn of None \<Rightarrow> [] | Some c \<Rightarrow> c)"

text \<open>\<^verbatim>\<open>open(filename, 'a+')\<close>: creates the file when it does not exist.\<close>

definition fopen :: "env \<Rightarrow> string \<Rightarrow> world \<Rightarrow> bool \<times> world" where
  "fopen orc fn w =
     (let k = opens w; w1 = w\<lparr>opens := Suc k\<rparr> in
      if open_raises orc k then (False, w1)
      else (True, w1\<lparr>disk := (disk w1)(fn \<mapsto> content w1 fn),
                     handles := Suc (handles w1), buffered := []\<rparr>))"

text \<open>
  \<^verbatim>\<open>csv_file.write(s)\<close>: the text joins what is buffered; nothing of it is kept when the
  call raises.
\<close>

definition fwrite :: "env \<Rightarrow> string \<Rightarrow> world \<Rightarrow> bool \<times> world" where
  "fwrite orc s w =
     (let k = writes w; w1 = w\<lparr>writes := Suc k\<rparr> in
      if write_raises orc k then (False, w1)
      else (True, w1\<lparr>buffered := buffered w1 @ s\<rparr>))"

text \<open>
  \<^verbatim>\<open>csv_file.close()\<close> on a file opened for appending: the buffered text is appended to
  the file and the handle released. When the call raises (\<open>False\<close>) the handle is
  released all the same, and of the buffered text only a part has reached the file.
\<close>

definition fclose :: "env \<Rightarrow> string \<Rightarrow> world \<Rightarrow> bool \<times> world" where
  "fclose orc fn w =
     (let k = closes w;
          w1 = w\<lparr>closes := Suc k, handles := handles w - 1, buffered := []\<rparr>
      in if close_raises orc k
         then (False, w1\<lparr>disk := (disk w)(fn \<mapsto> content w fn @ take (flushed orc k) (buffered w))\<rparr>)
         else (True, w1\<lparr>disk := (disk w)(fn \<mapsto> content w fn @ buffered w)\<rparr>))"

subsection \<open>Backoff: \<^verbatim>\<open>_get_open_backoff\<close>\<close>

text \<open>\<^verbatim>\<open>math.trunc\<close> of a finite float: rounding towards zero, exact.\<close>

definition trunc :: "rat \<Rightarrow> int" where
  "trunc x = (if x < 0 then \<lceil>x\<rceil> else \<lfloor>x\<rfloor>)"

text \<open>
  The random generator set-up of the source always ends with
  \<^verbatim>\<open>RANDOM_GENERATOR = 0\<close> (the \<^verbatim>\<open>finally\<close> clause), so the draw is
  \<^verbatim>\<open>random.random()\<close>; the drawn number is the argument \<open>multiplier\<close>. No number is
  drawn when \<open>prev\<close> is \<open>None\<close>. The two products and the two quotients are those of the
  environment's float arithmetic; the comparison with the ceiling and \<^verbatim>\<open>max\<close> are exact.
  \<^verbatim>\<open>float(prev)\<close> is \<open>prev\<close>, which is a float already or the integer 1.
\<close>

definition get_open_backoff :: "env \<Rightarrow> rat option \<Rightarrow> rat \<Rightarrow> rat" where
  "get_open_backoff orc prev multiplier =
     (case prev of
        None \<Rightarrow> 1
      | Some p \<Rightarrow>
          (let sleep = fdiv orc (of_int (trunc (fmul orc (fmul orc p multiplier) 100))) 10 in
           if sleep > MAX_FILE_OPEN_SLEEP_SEC
           then max (float_0_1 orc) (fdiv orc (of_int (trunc (fmul orc multiplier 100))) 10)
           else sleep))"

text \<open>One call of \<^verbatim>\<open>_get_open_backoff(backoff_secs)\<close> followed by \<^verbatim>\<open>time.sleep\<close>.\<close>

definition backoff_and_sleep :: "env \<Rightarrow> rat option \<Rightarrow> world \<Rightarrow> rat \<times> world" where
  "backoff_and_sleep orc prev w =
     (case prev of
        None \<Rightarrow> (let b = get_open_backoff orc None 0 in (b, w\<lparr>slept := slept w @ [b]\<rparr>))
      | Some p \<Rightarrow>
          (let b = get_open_backoff orc (Some p) (random_draw orc (draws w)) in
           (b, w\<lparr>draws := Suc (draws w), slept := slept w @ [b]\<rparr>)))"

subsection \<open>\<^verbatim>\<open>write_csv_file\<close>\<close>

text \<open>
  The loop \<^verbatim>\<open>for tries in range(0, MAX_CSV_FILE_OPEN_TRIES)\<close>: the result is whether a
  handle was obtained.
\<close>

function open_loop :: "env \<Rightarrow> string \<Rightarrow> nat \<Rightarrow> rat option \<Rightarrow> world \<Rightarrow> bool \<times> world" where
  "open_loop orc fn tries backoff_secs w =
     (if tries \<ge> MAX_CSV_FILE_OPEN_TRIES then (False, w)
      else case fopen orc fn w of
             (True, w1) \<Rightarrow> (True, w1)
           | (False, w1) \<Rightarrow>
               if tries < MAX_CSV_FILE_OPEN_TRIES - 1
               then (case backoff_and_sleep orc backoff_secs w1 of
                       (b, w2) \<Rightarrow> open_loop orc fn (Suc tries) (Some b) w2)
               else open_loop orc fn (Suc tries) backoff_secs w1)"
  by pat_completeness auto
termination
  by (relation "measure (\<lambda>(orc, fn, tries, b, w). MAX_CSV_FILE_OPEN_TRIES - tries)") auto

declare open_loop.simps [simp del]

text \<open>
  The \<^verbatim>\<open>try\<close> block after a successful open: \<open>False\<close> when a write raised (the handler
  logs the exception and \<^verbatim>\<open>wrote_file\<close> stays \<^verbatim>\<open>False\<close>). The size that \<^verbatim>\<open>os.fstat\<close>
  reports is that of the file on disk.
\<close>

definition write_body :: "env \<Rightarrow> string \<Rightarrow> string option \<Rightarrow> string \<Rightarrow> world \<Rightarrow> bool \<times> world" where
  "write_body orc fn header d w =
     (case (if length (content w fn) \<le> 0
            then (case header of
                    None \<Rightarrow> (True, w)
                  | Some h \<Rightarrow> if h = [] then (True, w) else fwrite orc (h @ [CHR 0x0A]) w)
            else (True, w)) of
        (False, w1) \<Rightarrow> (False, w1)
      | (True, w1) \<Rightarrow> fwrite orc (d @ [CHR 0x0A]) w1)"

text \<open>
  \<^verbatim>\<open>write_csv_file\<close>. The \<^verbatim>\<open>finally\<close> clause closes the file on every way out of the
  \<^verbatim>\<open>try\<close> block; an exception of \<^verbatim>\<open>close\<close> itself leaves the function.
\<close>

definition write_csv_file ::
  "env \<Rightarrow> string option \<Rightarrow> string option \<Rightarrow> string option \<Rightarrow> world \<Rightarrow> (pyexn + bool) \<times> world" where
  "write_csv_file orc filename header data w =
     (case (filename, data) of
        (Some fn, Some d) \<Rightarrow>
          if fn = [] \<or> d = [] then (Inl RuntimeError, w)
          else (case open_loop orc fn 0 None w of
                  (False, w1) \<Rightarrow> (Inr False, w1)
                | (True, w1) \<Rightarrow>
                    (case write_body orc fn header d w1 of
                       (wrote_file, w2) \<Rightarrow>
                         (case fclose orc fn w2 of
                            (True, w3) \<Rightarrow> (Inr wrote_file, w3)
                          | (False, w3) \<Rightarrow> (Inl IOError, w3))))
      | _ \<Rightarrow> (Inl RuntimeError, w))"

text \<open>
  An environment in which nothing fails and whose float arithmetic is exact, and a
  state with no files.
\<close>

definition quiet_env :: env where
  "quiet_env = \<lparr>open_raises = (\<lambda>n. False), write_raises = (\<lambda>n. False),
                 close_raises = (\<lambda>n. False), flushed = (\<lambda>n. 0),
                 random_draw = (\<lambda>n. 1 / 2),
                 fmul = (\<lambda>a b. a * b), fdiv = (\<lambda>a b. a / b), float_0_1 = 1 / 10\<rparr>"

definition fresh_world :: world where
  "fresh_world = \<lparr>disk = Map.empty, handles = 0, buffered = [], opens = 0, writes = 0,
                   closes = 0, draws = 0, slept = [], posted = []\<rparr>"

text \<open>What the open loop may change: used to state its frame lemma.\<close>

definition open_frame :: "string \<Rightarrow> world \<Rightarrow> bool \<Rightarrow> world \<Rightarrow> bool" where
  "open_frame fn w r w1 \<longleftrightarrow>
     handles w1 = handles w + (if r then 1 else 0) \<and> writes w1 = writes w \<and>
     closes w1 = closes w \<and> posted w1 = posted w \<and> (r \<longrightarrow> buffered w1 = []) \<and>
     (if r then disk w1 = (disk w)(fn \<mapsto> content w fn) else disk w1 = disk w)"

subsection \<open>Image bounds: \<^verbatim>\<open>load_image_files\<close>\<close>

text \<open>
  A Python float that may be NaN, and the comparison \<^verbatim>\<open>!=\<close> on floats: anything
  compared with NaN is unequal to it, NaN included.
\<close>

datatype pyfloat = NaN | Fin rat

definition py_ne :: "pyfloat \<Rightarrow> pyfloat \<Rightarrow> bool" where
  "py_ne a b = (case (a, b) of (Fin x, Fin y) \<Rightarrow> x \<noteq> y | _ \<Rightarrow> True)"

text \<open>
  Two points are unequal when a coordinate of one is unequal, as floats, to the same
  coordinate of the other.
\<close>

definition point_ne :: "pyfloat \<times> pyfloat \<Rightarrow> pyfloat \<times> pyfloat \<Rightarrow> bool" where
  "point_ne p q \<longleftrightarrow> py_ne (fst p) (fst q) \<or> py_ne (snd p) (snd q)"

text \<open>
  The list returned by \<^verbatim>\<open>image_get_geobounds\<close>, by index: 0 is the minimum Y, 1 the
  maximum Y, 2 the minimum X and 3 the maximum X (the docstring of
  \<^verbatim>\<open>load_image_files\<close>). When the file has no georeferencing all four are NaN.
\<close>

record geobounds =
  min_y :: pyfloat
  max_y :: pyfloat
  min_x :: pyfloat
  max_x :: pyfloat

text \<open>
  What the libraries answer (terrautils, OSR and the conversion \<^verbatim>\<open>int(epsg)\<close>); none
  of them is code of this repository. \<open>get_epsg\<close> gives \<open>None\<close> when the file has no
  code; \<open>int_of_epsg\<close> gives \<open>None\<close> where \<^verbatim>\<open>int\<close> raises \<^verbatim>\<open>ValueError\<close>;
  \<open>import_from_epsg\<close> says whether \<^verbatim>\<open>ImportFromEPSG\<close> returned \<^verbatim>\<open>OGRERR_NONE\<close>.
\<close>

record geo_lib =
  image_get_geobounds :: "string \<Rightarrow> geobounds"
  get_epsg :: "string \<Rightarrow> string option"
  int_of_epsg :: "string \<Rightarrow> int option"
  import_from_epsg :: "int \<Rightarrow> bool"

text \<open>The value stored under \<^verbatim>\<open>'bounds'\<close>: the ring of the polygon and its reference system.\<close>

record polygon =
  ring :: "(pyfloat \<times> pyfloat) list"
  spatial_ref :: int

text \<open>
  The loop over \<open>files\<close>; \<open>imagefiles\<close> is the dictionary built so far, in insertion
  order (a later entry for the same name replaces the value in place).
\<close>

fun load_image_files_loop ::
  "geo_lib \<Rightarrow> string list \<Rightarrow> (string \<times> polygon) list \<Rightarrow> pyexn + (string \<times> polygon) list" where
  "load_image_files_loop lib [] imagefiles = Inr imagefiles"
| "load_image_files_loop lib (onefile # rest) imagefiles =
     (let bounds = image_get_geobounds lib onefile;
          epsg = get_epsg lib onefile
      in if py_ne (min_y bounds) NaN
         then (let ring = [(min_x bounds, max_y bounds),
                           (max_x bounds, max_y bounds),
                           (max_x bounds, min_y bounds),
                           (min_x bounds, min_y bounds),
                           (min_x bounds, max_y bounds)]
               in case epsg of
                    None \<Rightarrow> Inl RuntimeError
                  | Some e \<Rightarrow>
                      if e = [] then Inl RuntimeError
                      else (case int_of_epsg lib e of
                              None \<Rightarrow> Inl ValueError
                            | Some code \<Rightarrow>
                                if \<not> import_from_epsg lib code then Inl RuntimeError
                                else load_image_files_loop lib rest
                                       (AList.update onefile
                                          \<lparr>ring = ring, spatial_ref = code\<rparr> imagefiles)))
         else load_image_files_loop lib rest imagefiles)"

definition load_image_files :: "geo_lib \<Rightarrow> string list \<Rightarrow> pyexn + (string \<times> polygon) list" where
  "load_image_files lib files = load_image_files_loop lib files []"

text \<open>
  A library for the examples: \<^verbatim>\<open>plain.tif\<close> and \<^verbatim>\<open>bare.tif\<close> have no georeferencing,
  and \<^verbatim>\<open>bare.tif\<close> no EPSG code either; every other file covers the unit square.
\<close>

definition nan_bounds :: geobounds where
  "nan_bounds = \<lparr>min_y = NaN, max_y = NaN, min_x = NaN, max_x = NaN\<rparr>"

definition unit_bounds :: geobounds where
  "unit_bounds = \<lparr>min_y = Fin 0, max_y = Fin 1, min_x = Fin 0, max_x = Fin 1\<rparr>"

definition example_lib :: geo_lib where
  "example_lib =
     \<lparr>image_get_geobounds =
        (\<lambda>f. if f = ''plain.tif'' \<or> f = ''bare.tif'' then nan_bounds else unit_bounds),
      get_epsg = (\<lambda>f. if f = ''bare.tif'' then None else Some ''4326''),
      int_of_epsg = (\<lambda>s. if s = ''4326'' then Some 4326 else None),
      import_from_epsg = (\<lambda>c. True)\<rparr>"

subsection \<open>JSON values and Python dictionaries\<close>

text \<open>
  What \<^verbatim>\<open>json.load\<close> returns. An object holds its members in the order of the text;
  where a name is repeated the parser keeps the value of the last one, which is what
  \<open>members_lookup\<close> reads. Numbers are rationals.
\<close>

datatype json =
    JNull | JBool bool | JNum rat | JStr string | JArr "json list"
  | JObj "(string \<times> json) list"

definition members_lookup :: "(string \<times> json) list \<Rightarrow> string \<Rightarrow> json option" where
  "members_lookup kvs k = map_of (rev kvs) k"

text \<open>The keys of the parsed object, each once, in the order of first occurrence.\<close>

definition member_names :: "(string \<times> json) list \<Rightarrow> string list" where
  "member_names kvs = rev (remdups (rev (map fst kvs)))"

text \<open>Python's truth value of a parsed document (\<^verbatim>\<open>if file_md:\<close>).\<close>

fun truthy :: "json \<Rightarrow> bool" where
  "truthy JNull = False"
| "truthy (JBool b) = b"
| "truthy (JNum n) = (n \<noteq> 0)"
| "truthy (JStr s) = (s \<noteq> [])"
| "truthy (JArr xs) = (xs \<noteq> [])"
| "truthy (JObj kvs) = (kvs \<noteq> [])"

text \<open>
  A Python dictionary, in insertion order. Keys are the hashable values; \<^verbatim>\<open>True\<close> and
  \<^verbatim>\<open>1\<close>, and \<^verbatim>\<open>False\<close> and \<^verbatim>\<open>0\<close>, are the same key. Storing under a key that is
  present replaces the value and keeps the entry's place and key.
\<close>

type_synonym pydict = "(json \<times> json) list"

fun hashable :: "json \<Rightarrow> bool" where
  "hashable (JArr xs) = False"
| "hashable (JObj kvs) = False"
| "hashable j = True"

fun key_norm :: "json \<Rightarrow> json" where
  "key_norm (JBool b) = JNum (if b then 1 else 0)"
| "key_norm j = j"

definition key_eq :: "json \<Rightarrow> json \<Rightarrow> bool" where
  "key_eq a b = (key_norm a = key_norm b)"

fun dict_get :: "pydict \<Rightarrow> json \<Rightarrow> json option" where
  "dict_get [] k = None"
| "dict_get ((k', v) # d) k = (if key_eq k' k then Some v else dict_get d k)"

fun dict_set :: "pydict \<Rightarrow> json \<Rightarrow> json \<Rightarrow> pydict" where
  "dict_set [] k v = [(k, v)]"
| "dict_set ((k', v') # d) k v =
     (if key_eq k' k then (k', v) # d else (k', v') # dict_set d k v)"

text \<open>\<^verbatim>\<open>d.update(m)\<close> for a mapping \<open>m\<close>: each member is stored, in order.\<close>

fun update_members :: "pydict \<Rightarrow> (string \<times> json) list \<Rightarrow> pydict" where
  "update_members d [] = d"
| "update_members d ((k, v) # kvs) = update_members (dict_set d (JStr k) v) kvs"

text \<open>
  \<^verbatim>\<open>d.update(xs)\<close> for a value that is not a mapping: each element of the iterable must
  itself be a sequence of length 2, a key and a value. The elements before the one
  that raises are stored.
\<close>

fun as_pair :: "json \<Rightarrow> pyexn + (json \<times> json)" where
  "as_pair (JArr xs) = (case xs of [a, b] \<Rightarrow> Inr (a, b) | _ \<Rightarrow> Inl ValueError)"
| "as_pair (JStr s) = (case s of [c, d] \<Rightarrow> Inr (JStr [c], JStr [d]) | _ \<Rightarrow> Inl ValueError)"
| "as_pair (JObj kvs) =
     (case member_names kvs of [a, b] \<Rightarrow> Inr (JStr a, JStr b) | _ \<Rightarrow> Inl ValueError)"
| "as_pair j = Inl TypeError"

fun update_pairs :: "pydict \<Rightarrow> json list \<Rightarrow> pyexn option \<times> pydict" where
  "update_pairs d [] = (None, d)"
| "update_pairs d (x # xs) =
     (case as_pair x of
        Inl e \<Rightarrow> (Some e, d)
      | Inr (k, v) \<Rightarrow>
          if hashable k then update_pairs (dict_set d k v) xs else (Some TypeError, d))"

fun dict_update :: "pydict \<Rightarrow> json \<Rightarrow> pyexn option \<times> pydict" where
  "dict_update d (JObj kvs) = (None, update_members d kvs)"
| "dict_update d (JArr xs) = update_pairs d xs"
| "dict_update d (JStr s) = update_pairs d (map (\<lambda>c. JStr [c]) s)"
| "dict_update d j = (Some TypeError, d)"

text \<open>\<^verbatim>\<open>v[key]\<close> for a string key.\<close>

fun py_getitem :: "json \<Rightarrow> string \<Rightarrow> pyexn + json" where
  "py_getitem (JObj kvs) k =
     (case members_lookup kvs k of None \<Rightarrow> Inl KeyError | Some v \<Rightarrow> Inr v)"
| "py_getitem j k = Inl TypeError"

subsection \<open>\<^verbatim>\<open>load_metadata\<close>\<close>

text \<open>
  \<open>json_load f\<close> stands for opening \<open>f\<close> and \<^verbatim>\<open>json.load\<close> of it: the document, or the
  exception of either step. An exception inside the inner \<^verbatim>\<open>try\<close> (of the load or of
  \<^verbatim>\<open>update\<close>) is logged and the loop goes on with what \<^verbatim>\<open>update\<close> had stored. Iterating
  a list raises nothing, so the outer handler, which raises \<^verbatim>\<open>RuntimeError\<close>, is never
  entered and the function always returns.
\<close>

fun load_metadata_loop :: "(string \<Rightarrow> pyexn + json) \<Rightarrow> string list \<Rightarrow> pydict \<Rightarrow> pydict" where
  "load_metadata_loop json_load [] new_metadata = new_metadata"
| "load_metadata_loop json_load (one_file # rest) new_metadata =
     (case json_load one_file of
        Inl ex \<Rightarrow> load_metadata_loop json_load rest new_metadata
      | Inr file_md \<Rightarrow>
          if truthy file_md
          then load_metadata_loop json_load rest (snd (dict_update new_metadata file_md))
          else load_metadata_loop json_load rest new_metadata)"

definition load_metadata :: "(string \<Rightarrow> pyexn + json) \<Rightarrow> string list \<Rightarrow> pydict" where
  "load_metadata json_load files =
     (if files \<noteq> [] then load_metadata_loop json_load files [] else [])"

text \<open>The members of the object a file holds (none when it holds no object).\<close>

definition file_members :: "(string \<Rightarrow> pyexn + json) \<Rightarrow> string \<Rightarrow> (string \<times> json) list" where
  "file_members json_load f = (case json_load f of Inr (JObj kvs) \<Rightarrow> kvs | _ \<Rightarrow> [])"

text \<open>
  The value of \<open>k\<close> in the last file of the list that defines it, as the specification
  words the result of the merge.
\<close>

fun last_defined :: "(string \<Rightarrow> pyexn + json) \<Rightarrow> string list \<Rightarrow> string \<Rightarrow> json option" where
  "last_defined json_load [] k = None"
| "last_defined json_load (f # fs) k =
     (case last_defined json_load fs k of
        Some v \<Rightarrow> Some v
      | None \<Rightarrow> members_lookup (file_members json_load f) k)"

text \<open>Two metadata files for the examples; both define \<^verbatim>\<open>site\<close>.\<close>

definition example_json :: "string \<Rightarrow> pyexn + json" where
  "example_json f =
     (if f = ''a.json'' then Inr (JObj [(''site'', JStr ''north''), (''crop'', JStr ''maize'')])
      else if f = ''b.json'' then Inr (JObj [(''site'', JStr ''south'')])
      else Inl IOError)"

subsection \<open>\<^verbatim>\<open>update_betydb\<close>\<close>

text \<open>
  The answer of the trait database. \<open>body\<close> is what \<^verbatim>\<open>resp.json()\<close> returns, \<open>None\<close>
  when the body is not JSON (\<^verbatim>\<open>json()\<close> then raises \<^verbatim>\<open>ValueError\<close>).
  \<^verbatim>\<open>raise_for_status\<close> is the method of the requests library: it raises \<^verbatim>\<open>HTTPError\<close>
  for a status from 400 to 599 and returns for any other.
\<close>

record response =
  status_code :: int
  reason :: string
  body :: "json option"

definition raise_for_status :: "response \<Rightarrow> bool" where
  "raise_for_status resp \<longleftrightarrow> 400 \<le> status_code resp \<and> status_code resp < 600"

text \<open>\<^verbatim>\<open>sep.join(xs)\<close>, and \<^verbatim>\<open>os.linesep\<close> on a POSIX system.\<close>

fun join :: "string \<Rightarrow> string list \<Rightarrow> string" where
  "join sep [] = []"
| "join sep [x] = x"
| "join sep (x # y # ys) = x @ sep @ join sep (y # ys)"

definition linesep :: string where
  "linesep = [CHR 0x0A]"

text \<open>
  \<open>http_post\<close> stands for \<^verbatim>\<open>requests.post\<close> to the trait endpoint: the response to the
  payload, or the exception of the request. The result \<open>None\<close> is Python's \<^verbatim>\<open>None\<close>.
\<close>

definition update_betydb ::
  "(string \<Rightarrow> pyexn + response) \<Rightarrow> string \<Rightarrow> string list \<Rightarrow> world \<Rightarrow> (pyexn + json option) \<times> world" where
  "update_betydb http_post bety_csv_header bety_rows w =
     (let data = bety_csv_header # bety_rows;
          payload = join linesep data;
          w1 = w\<lparr>posted := posted w @ [payload]\<rparr>
      in case http_post payload of
           Inl ex \<Rightarrow> (Inl ex, w1)
         | Inr resp \<Rightarrow>
             if status_code resp = 200 \<or> status_code resp = 201
             then (case body resp of
                     None \<Rightarrow> (Inl ValueError, w1)
                   | Some j \<Rightarrow>
                       (case py_getitem j ''data'' of
                          Inl ex \<Rightarrow> (Inl ex, w1)
                        | Inr d \<Rightarrow>
                            (case py_getitem d ''ids_of_new_traits'' of
                               Inl ex \<Rightarrow> (Inl ex, w1)
                             | Inr ids \<Rightarrow> (Inr (Some ids), w1))))
             else if raise_for_status resp then (Inl HTTPError, w1)
             else (Inr None, w1))"

text \<open>An endpoint that answers every request with the given status and body.\<close>

definition answering :: "int \<Rightarrow> json option \<Rightarrow> string \<Rightarrow> pyexn + response" where
  "answering code b payload = Inr \<lparr>status_code = code, reason = [], body = b\<rparr>"

subsection \<open>Strings\<close>

text \<open>
  \<^verbatim>\<open>str.strip\<close>, \<^verbatim>\<open>str.lower\<close>, \<^verbatim>\<open>str.replace\<close> of one character, \<^verbatim>\<open>str.split\<close>,
  \<^verbatim>\<open>str.find\<close> and \<^verbatim>\<open>str.rfind\<close> of one character, on ASCII text.
\<close>

definition is_space :: "char \<Rightarrow> bool" where
  "is_space c \<longleftrightarrow>
     c \<in> set [CHR '' '', CHR 0x09, CHR 0x0A, CHR 0x0B, CHR 0x0C, CHR 0x0D,
               CHR 0x1C, CHR 0x1D, CHR 0x1E, CHR 0x1F]"

definition strip :: "string \<Rightarrow> string" where
  "strip s = rev (dropWhile is_space (rev (dropWhile is_space s)))"

definition lower_char :: "char \<Rightarrow> char" where
  "lower_char c =
     (case map_of (zip ''ABCDEFGHIJKLMNOPQRSTUVWXYZ'' ''abcdefghijklmnopqrstuvwxyz'') c of
        Some l \<Rightarrow> l
      | None \<Rightarrow> c)"

definition lower :: "string \<Rightarrow> string" where
  "lower s = map lower_char s"

definition replace_char :: "char \<Rightarrow> char \<Rightarrow> string \<Rightarrow> string" where
  "replace_char a b s = map (\<lambda>c. if c = a then b else c) s"

fun split_on :: "char \<Rightarrow> string \<Rightarrow> string list" where
  "split_on c [] = [] # []"
| "split_on c (x # xs) =
     (if x = c then [] # split_on c xs
      else (case split_on c xs of [] \<Rightarrow> [x] # [] | y # ys \<Rightarrow> (x # y) # ys))"

fun py_find :: "char \<Rightarrow> string \<Rightarrow> int" where
  "py_find c [] = - 1"
| "py_find c (x # xs) =
     (if x = c then 0 else (let r = py_find c xs in if r < 0 then - 1 else r + 1))"

definition py_rfind :: "char \<Rightarrow> string \<Rightarrow> int" where
  "py_rfind c s =
     (let r = py_find c (rev s) in if r < 0 then - 1 else int (length s) - 1 - r)"

subsection \<open>Module state, configuration and the trait schema\<close>

text \<open>
  A trait value is a string or the empty list \<^verbatim>\<open>[]\<close>; \<open>str_of\<close> is \<^verbatim>\<open>str\<close>. The
  attributes of the \<^verbatim>\<open>configuration\<close> module are a record (an optional attribute is
  absent when \<open>None\<close>), and so are the globals of the module, with their initial values
  in \<open>module_globals\<close>.
\<close>

datatype trait_value = TStr string | TList

fun str_of :: "trait_value \<Rightarrow> string" where
  "str_of (TStr s) = s"
| "str_of TList = ''[]''"

record configuration =
  CONF_EXTRACTOR_NAME :: string
  METHOD_NAME :: "string option"
  CITATION_AUTHOR :: string
  CITATION_TITLE :: string
  CITATION_YEAR :: string
  VARIABLE_NAMES :: string
  NEVER_WRITE_BETYDB :: "bool option"
  NEVER_WRITE_CSV :: "bool option"

record globals =
  EXTRACTOR_NAME :: "string option"
  SENSOR_NAME :: "string option"
  TRAIT_NAME_ARRAY_VALUE :: "string list"
  TRAIT_NAME_MAP :: "(string \<times> string) list"
  FIELD_NAME_LIST :: "string list option"

definition module_globals :: globals where
  "module_globals =
     \<lparr>EXTRACTOR_NAME = None,
      SENSOR_NAME = None,
      TRAIT_NAME_ARRAY_VALUE = [''site''],
      TRAIT_NAME_MAP = [(''access_level'', ''2''), (''species'', ''Unknown''),
                        (''citation_author'', ''Unknown''), (''citation_year'', ''Unknown''),
                        (''citation_title'', ''Unknown''), (''method'', [])],
      FIELD_NAME_LIST = None\<rparr>"

text \<open>
  \<^verbatim>\<open>init_extraction\<close>. The assignment \<^verbatim>\<open>TRAIT_NAME_ARRAY_VALUE[0] = SENSOR_NAME\<close>
  replaces the first entry of the list (and raises \<^verbatim>\<open>IndexError\<close> on an empty list).
\<close>

definition init_extraction ::
  "configuration \<Rightarrow> string \<Rightarrow> string option \<Rightarrow> globals \<Rightarrow> pyexn + globals" where
  "init_extraction conf name method_name g =
     (if name = [] then Inl RuntimeError
      else
        (let new_name = replace_char (CHR 0x0D) (CHR ''_'')
                          (replace_char (CHR 0x0A) (CHR ''_'')
                             (replace_char (CHR 0x09) (CHR ''_'')
                                (replace_char (CHR '' '') (CHR ''_'') (strip name))));
             sensor = lower new_name
         in case TRAIT_NAME_ARRAY_VALUE g of
              [] \<Rightarrow> Inl IndexError
            | first # others \<Rightarrow>
                (let m1 = AList.update ''citation_author'' (CITATION_AUTHOR conf) (TRAIT_NAME_MAP g);
                     m2 = AList.update ''citation_title'' (CITATION_TITLE conf) m1;
                     m3 = AList.update ''citation_year'' (CITATION_YEAR conf) m2;
                     m4 = (case method_name of
                             None \<Rightarrow> m3
                           | Some mn \<Rightarrow> if mn = [] then m3 else AList.update ''method_name'' mn m3)
                 in Inr (g\<lparr>EXTRACTOR_NAME := Some name,
                           SENSOR_NAME := Some sensor,
                           TRAIT_NAME_ARRAY_VALUE := sensor # others,
                           TRAIT_NAME_MAP := m4,
                           FIELD_NAME_LIST :=
                             Some (if CHR '','' \<in> set (VARIABLE_NAMES conf)
                                   then split_on (CHR '','') (VARIABLE_NAMES conf)
                                   else [VARIABLE_NAMES conf])\<rparr>))))"

text \<open>\<^verbatim>\<open>tuple(FIELD_NAME_LIST)\<close> raises \<^verbatim>\<open>TypeError\<close> while the list is still \<^verbatim>\<open>None\<close>.\<close>

definition get_bety_fields :: "globals \<Rightarrow> pyexn + string list" where
  "get_bety_fields g =
     (case FIELD_NAME_LIST g of
        None \<Rightarrow> Inl TypeError
      | Some field_names \<Rightarrow>
          Inr ([''local_datetime'', ''access_level'', ''species'', ''site'', ''citation_author'',
                ''citation_year'', ''citation_title'', ''method''] @ field_names))"

definition get_default_trait :: "globals \<Rightarrow> string \<Rightarrow> trait_value" where
  "get_default_trait g trait_name =
     (if trait_name \<in> set (TRAIT_NAME_ARRAY_VALUE g) then TList
      else (case map_of (TRAIT_NAME_MAP g) trait_name of
              Some v \<Rightarrow> TStr v
            | None \<Rightarrow> TStr []))"

fun fill_traits :: "globals \<Rightarrow> string list \<Rightarrow> (string \<times> trait_value) list \<Rightarrow> (string \<times> trait_value) list" where
  "fill_traits g [] traits = traits"
| "fill_traits g (field_name # flds) traits =
     fill_traits g flds (AList.update field_name (get_default_trait g field_name) traits)"

definition get_bety_traits_table ::
  "globals \<Rightarrow> pyexn + (string list \<times> (string \<times> trait_value) list)" where
  "get_bety_traits_table g =
     (case get_bety_fields g of
        Inl ex \<Rightarrow> Inl ex
      | Inr flds \<Rightarrow> Inr (flds, fill_traits g flds []))"

definition generate_traits_list ::
  "globals \<Rightarrow> string list \<Rightarrow> (string \<times> trait_value) list \<Rightarrow> trait_value list" where
  "generate_traits_list g flds traits =
     map (\<lambda>field_name. case map_of traits field_name of
                          Some v \<Rightarrow> v
                        | None \<Rightarrow> get_default_trait g field_name) flds"

text \<open>A configuration for the examples: the extractor and its one variable share a name.\<close>

definition example_conf :: configuration where
  "example_conf =
     \<lparr>CONF_EXTRACTOR_NAME = ''Canopy Cover'', METHOD_NAME = None,
      CITATION_AUTHOR = ''Doe'', CITATION_TITLE = ''Cover'', CITATION_YEAR = ''2019'',
      VARIABLE_NAMES = ''canopy_cover'', NEVER_WRITE_BETYDB = None, NEVER_WRITE_CSV = None\<rparr>"

subsection \<open>Paths\<close>

text \<open>
  \<^verbatim>\<open>__str_to_path\<close>, and \<^verbatim>\<open>os.path.dirname\<close>, \<^verbatim>\<open>os.path.join\<close> of two parts and the
  first component of \<^verbatim>\<open>os.path.splitext\<close> on a POSIX system.
\<close>

definition str_to_path :: "string \<Rightarrow> string" where
  "str_to_path target =
     map (\<lambda>c. if c \<in> set [CHR '' '', CHR '':'', CHR '';'', CHR ''.'', CHR '','', CHR ''/'',
                             CHR 0x5C, CHR 0x27, CHR 0x22, CHR ''('', CHR '')'', CHR ''{'',
                             CHR ''}'']
               then CHR ''_'' else c) target"

definition dirname :: "string \<Rightarrow> string" where
  "dirname p =
     (let head = rev (dropWhile (\<lambda>c. c \<noteq> CHR ''/'') (rev p))
      in if head \<noteq> [] \<and> (\<exists>c \<in> set head. c \<noteq> CHR ''/'')
         then rev (dropWhile (\<lambda>c. c = CHR ''/'') (rev head))
         else head)"

definition path_join :: "string \<Rightarrow> string \<Rightarrow> string" where
  "path_join a b =
     (case b of
        [] \<Rightarrow> (if a = [] \<or> last a = CHR ''/'' then a else a @ ''/'')
      | c # cs \<Rightarrow>
          if c = CHR ''/'' then b
          else if a = [] \<or> last a = CHR ''/'' then a @ b
          else a @ ''/'' @ b)"

definition splitext_root :: "string \<Rightarrow> string" where
  "splitext_root p =
     (let sepIndex = py_rfind (CHR ''/'') p;
          dotIndex = py_rfind (CHR ''.'') p
      in if dotIndex > sepIndex \<and>
            (\<exists>c \<in> set (take (nat (dotIndex - (sepIndex + 1))) (drop (nat (sepIndex + 1)) p)).
                c \<noteq> CHR ''.'')
         then take (nat dotIndex) p
         else p)"

subsection \<open>\<^verbatim>\<open>process_files\<close>\<close>

text \<open>
  What \<^verbatim>\<open>calculate\<close> returns, by the types the code tells apart; a value stands for its
  \<^verbatim>\<open>str\<close>. The keys of a dictionary are distinct.
\<close>

datatype calc_value =
    CSet | CDict "(string \<times> string) list" | CList "string list" | CTuple "string list"
  | COther string

type_synonym pixels = "nat list"

text \<open>
  The collaborators of a run: the geo libraries, the JSON loader, the preparation of
  the pixels (\<^verbatim>\<open>gdal.Open(filename).ReadAsArray()\<close>, \<^verbatim>\<open>np.array\<close> and \<^verbatim>\<open>np.rollaxis\<close>,
  with the exception when one of them raises), the algorithm, the file system's choices, the
  trait endpoint, and the text of the sidecar (\<^verbatim>\<open>json.dumps\<close> of the merged metadata
  with the block of the run, which holds the time of day; \<open>None\<close> when it raises).
\<close>

record platform =
  p_geo :: geo_lib
  p_json_load :: "string \<Rightarrow> pyexn + json"
  p_read_pixels :: "string \<Rightarrow> pyexn + pixels"
  p_calculate :: "pixels \<Rightarrow> pyexn + calc_value"
  p_io :: env
  p_http_post :: "string \<Rightarrow> pyexn + response"
  p_sidecar_text :: "pydict \<Rightarrow> string \<Rightarrow> string option"

text \<open>
  The local variables that the loop over the images changes: \<^verbatim>\<open>values\<close> (field
  \<open>bound_values\<close>, unbound while \<open>None\<close>), \<open>bety_traits\<close> and \<open>bety_rows\<close>; \<open>calc_calls\<close> records the files that
  \<^verbatim>\<open>calculate\<close> was called for. The other locals do not change during the loop.
\<close>

record loop_state =
  bound_values :: "string list option"
  bety_traits :: "(string \<times> trait_value) list"
  bety_rows :: "string list"
  calc_calls :: "string list"

record run_context =
  rc_globals :: globals
  field_name_list :: "string list"
  create_csv_files :: bool
  store_in_betydb :: bool
  experiment_name :: string
  plot_name :: string
  localtime :: string
  bety_fields :: "string list"
  bety_csv_header :: string
  num_loaded_files :: nat
  metadata :: pydict

definition empty_state :: loop_state where
  "empty_state = \<lparr>bound_values = None, bety_traits = [], bety_rows = [], calc_calls = []\<rparr>"

text \<open>
  The chain of \<^verbatim>\<open>isinstance\<close> tests: the new binding of \<^verbatim>\<open>values\<close>. No branch assigns
  \<^verbatim>\<open>values\<close> for a list or a tuple, so the binding of an earlier image (or none) stays.
\<close>

fun shape_values :: "string list \<Rightarrow> calc_value \<Rightarrow> string list option \<Rightarrow> pyexn + string list option" where
  "shape_values names CSet old = Inl RuntimeError"
| "shape_values names (CDict d) old = Inr (Some (List.map_filter (map_of d) names))"
| "shape_values names (CList xs) old = Inr old"
| "shape_values names (CTuple xs) old = Inr old"
| "shape_values names (COther v) old = Inr (Some [v])"

fun assign_values :: "(string \<times> string) list \<Rightarrow> (string \<times> trait_value) list \<Rightarrow> (string \<times> trait_value) list" where
  "assign_values [] traits = traits"
| "assign_values ((k, v) # kvs) traits = assign_values kvs (AList.update k (TStr v) traits)"

text \<open>
  The inner \<^verbatim>\<open>try\<close> block for one image: the exception caught by its handler, if any,
  and the locals as they are when the block is left.
\<close>

definition image_try :: "platform \<Rightarrow> run_context \<Rightarrow> string \<Rightarrow> loop_state \<Rightarrow> pyexn option \<times> loop_state" where
  "image_try pf rc filename st =
     (case p_read_pixels pf filename of
        Inl ex \<Rightarrow> (Some ex, st)
      | Inr clip_pix \<Rightarrow>
          (let st1 = st\<lparr>calc_calls := calc_calls st @ [filename]\<rparr> in
           case p_calculate pf clip_pix of
             Inl ex \<Rightarrow> (Some ex, st1)
           | Inr calc_value \<Rightarrow>
               (case shape_values (field_name_list rc) calc_value (bound_values st1) of
                  Inl ex \<Rightarrow> (Some ex, st1)
                | Inr bound \<Rightarrow>
                    (let st2 = st1\<lparr>bound_values := bound\<rparr> in
                     case bound of
                       None \<Rightarrow> (Some UnboundLocalError, st2)
                     | Some vals \<Rightarrow>
                         if length vals \<noteq> length (field_name_list rc)
                         then (Some RuntimeError, st2)
                         else
                           (let t1 = assign_values (zip (field_name_list rc) vals) (bety_traits st2);
                                t2 = AList.update ''site'' (TStr (plot_name rc)) t1;
                                t3 = AList.update ''local_datetime'' (TStr (localtime rc)) t2;
                                trait_list = generate_traits_list (rc_globals rc) (bety_fields rc) t3;
                                csv_data = join '','' (map str_of trait_list)
                            in (None,
                                st2\<lparr>bety_traits := t3,
                                    bety_rows :=
                                      (if create_csv_files rc \<or> store_in_betydb rc
                                       then bety_rows st2 @ [csv_data]
                                       else bety_rows st2)\<rparr>))))))"

text \<open>The loop \<^verbatim>\<open>for one_row in bety_rows: write_csv_file(out_csv, bety_csv_header, one_row)\<close>.\<close>

fun write_rows :: "env \<Rightarrow> string \<Rightarrow> string \<Rightarrow> string list \<Rightarrow> world \<Rightarrow> pyexn option \<times> world" where
  "write_rows orc out_csv header [] w = (None, w)"
| "write_rows orc out_csv header (one_row # others) w =
     (case write_csv_file orc (Some out_csv) (Some header) (Some one_row) w of
        (Inl ex, w1) \<Rightarrow> (Some ex, w1)
      | (Inr wrote, w1) \<Rightarrow> write_rows orc out_csv header others w1)"

text \<open>
  Writing the sidecar, inside its own \<^verbatim>\<open>try\<close>: the file is opened with mode
  \<^verbatim>\<open>'w'\<close>, which empties it; then \<^verbatim>\<open>json.dumps\<close> is evaluated (\<open>text\<close> is \<open>None\<close> when
  it raises) and its text written; the \<^verbatim>\<open>with\<close> statement closes the file on every
  way out. Every exception is logged and dropped.
\<close>

definition write_sidecar :: "env \<Rightarrow> string \<Rightarrow> string option \<Rightarrow> world \<Rightarrow> world" where
  "write_sidecar orc metadata_file text w =
     (let k = opens w; w1 = w\<lparr>opens := Suc k\<rparr> in
      if open_raises orc k then w1
      else (let w2 = w1\<lparr>disk := (disk w1)(metadata_file \<mapsto> []),
                        handles := Suc (handles w1), buffered := []\<rparr>
            in case text of
                 None \<Rightarrow> snd (fclose orc metadata_file w2)
               | Some t \<Rightarrow> snd (fclose orc metadata_file (snd (fwrite orc t w2)))))"

text \<open>The block under \<^verbatim>\<open>if create_csv_files:\<close>; an exception of it leaves the function.\<close>

definition write_outputs ::
  "platform \<Rightarrow> run_context \<Rightarrow> string \<Rightarrow> loop_state \<Rightarrow> world \<Rightarrow> pyexn option \<times> world" where
  "write_outputs pf rc filename st w =
     (case SENSOR_NAME (rc_globals rc) of
        None \<Rightarrow> (Some TypeError, w)
      | Some sensor \<Rightarrow>
          (let out_csv = path_join (dirname filename)
                           (str_to_path (experiment_name rc) @ ''_'' @ sensor @ ''.csv'');
               metadata_file = splitext_root out_csv @ ''.json''
           in case write_rows (p_io pf) out_csv (bety_csv_header rc) (bety_rows st) w of
                (Some ex, w1) \<Rightarrow> (Some ex, w1)
              | (None, w1) \<Rightarrow>
                  (None, write_sidecar (p_io pf) metadata_file
                           (p_sidecar_text pf (metadata rc) filename) w1)))"

text \<open>
  The loop \<^verbatim>\<open>for filename in loaded_files\<close>: \<^verbatim>\<open>continue\<close> after a caught exception,
  \<^verbatim>\<open>break\<close> after the first image that went through when more than one was loaded.
\<close>

fun images_loop ::
  "platform \<Rightarrow> run_context \<Rightarrow> string list \<Rightarrow> loop_state \<Rightarrow> world \<Rightarrow> pyexn option \<times> loop_state \<times> world" where
  "images_loop pf rc [] st w = (None, st, w)"
| "images_loop pf rc (filename # others) st w =
     (case image_try pf rc filename st of
        (Some ex, st1) \<Rightarrow> images_loop pf rc others st1 w
      | (None, st1) \<Rightarrow>
          (case (if create_csv_files rc then write_outputs pf rc filename st1 w else (None, w)) of
             (Some ex, w1) \<Rightarrow> (Some ex, st1, w1)
           | (None, w1) \<Rightarrow>
               if num_loaded_files rc > 1 then (None, st1, w1)
               else images_loop pf rc others st1 w1))"

text \<open>
  The two overrides: \<^verbatim>\<open>True if not hasattr(configuration, X) else not getattr(configuration, X)\<close>.
\<close>

definition unless_never :: "bool option \<Rightarrow> bool" where
  "unless_never attr = (case attr of None \<Rightarrow> True | Some never \<Rightarrow> \<not> never)"

text \<open>The block that computes \<^verbatim>\<open>localtime\<close> from \<^verbatim>\<open>timestamp\<close>.\<close>

definition local_time :: "string \<Rightarrow> string" where
  "local_time timestamp =
     (let ts = (if CHR ''T'' \<notin> set timestamp then timestamp @ ''T12:00:00'' else timestamp)
      in if py_find (CHR ''T'') ts > 0 \<and> py_rfind (CHR ''-'') ts > 0 \<and>
            py_find (CHR ''T'') ts < py_rfind (CHR ''-'') ts
         then take (nat (py_rfind (CHR ''-'') ts)) ts
         else ts)"

text \<open>
  \<^verbatim>\<open>process_files\<close>: the exception that leaves the function (if any), the locals of the
  loop at that moment, and the state of the world.
\<close>

definition process_files ::
  "configuration \<Rightarrow> globals \<Rightarrow> platform \<Rightarrow> string \<Rightarrow> string \<Rightarrow> string \<Rightarrow> string \<Rightarrow>
   string list \<Rightarrow> string list \<Rightarrow> world \<Rightarrow> pyexn option \<times> loop_state \<times> world" where
  "process_files conf g pf germplasm experiment timestamp plot images_list metadata_list w =
     (case load_image_files (p_geo pf) images_list of
        Inl ex \<Rightarrow> (Some ex, empty_state, w)
      | Inr loaded_files \<Rightarrow>
          if length loaded_files \<le> 0 then (None, empty_state, w)
          else
            (case get_bety_traits_table g of
               Inl ex \<Rightarrow> (Some ex, empty_state, w)
             | Inr (flds, traits) \<Rightarrow>
                 (case FIELD_NAME_LIST g of
                    None \<Rightarrow> (Some TypeError, empty_state, w)
                  | Some names \<Rightarrow>
                      (let rc = \<lparr>rc_globals = g, field_name_list = names,
                                 create_csv_files = unless_never (NEVER_WRITE_CSV conf),
                                 store_in_betydb = unless_never (NEVER_WRITE_BETYDB conf),
                                 experiment_name = experiment, plot_name = plot,
                                 localtime = local_time timestamp, bety_fields = flds,
                                 bety_csv_header = join '','' flds,
                                 num_loaded_files = length loaded_files,
                                 metadata = load_metadata (p_json_load pf) metadata_list\<rparr>;
                           st0 = empty_state\<lparr>bety_traits :=
                                   AList.update ''species'' (TStr germplasm) traits\<rparr>
                       in case images_loop pf rc (map fst loaded_files) st0 w of
                            (Some ex, st, w1) \<Rightarrow> (Some ex, st, w1)
                          | (None, st, w1) \<Rightarrow>
                              if store_in_betydb rc \<and> bety_rows st \<noteq> []
                              then (case update_betydb (p_http_post pf)
                                           (bety_csv_header rc) (bety_rows st) w1 of
                                      (Inl ex, w2) \<Rightarrow> (Some ex, st, w2)
                                    | (Inr ids, w2) \<Rightarrow> (None, st, w2))
                              else (None, st, w1)))))"

text \<open>
  A platform for the examples: every image is readable, the algorithm returns what
  \<open>result\<close> says for the pixels, nothing fails, and the endpoint answers 201.
\<close>

definition example_platform :: "(pixels \<Rightarrow> pyexn + calc_value) \<Rightarrow> platform" where
  "example_platform result =
     \<lparr>p_geo = example_lib, p_json_load = example_json,
      p_read_pixels = (\<lambda>f. Inr [length f]),
      p_calculate = result,
      p_io = quiet_env,
      p_http_post = answering 201 (Some (JObj [(''data'', JObj [(''ids_of_new_traits'', JArr [])])])),
      p_sidecar_text = (\<lambda>md f. Some ''{}'')\<rparr>"

definition two_vars_conf :: configuration where
  "two_vars_conf = example_conf\<lparr>VARIABLE_NAMES := ''a,b''\<rparr>"

text \<open>
  The globals after the initialization that \<^verbatim>\<open>__do_initialization\<close> performs for a
  configuration.
\<close>

definition initialized :: "configuration \<Rightarrow> globals" where
  "initialized conf =
     (case init_extraction conf (CONF_EXTRACTOR_NAME conf) (METHOD_NAME conf) module_globals of
        Inr g \<Rightarrow> g
      | Inl ex \<Rightarrow> module_globals)"

text \<open>
  For stating what the loop does: whether the pixels of a file can be read, whether
  the result of the algorithm for it has as many values as there are variable fields
  (a mapping: one value for each field name it holds; a scalar: one value), and the
  elements of a list up to and including the first one that satisfies a predicate.
\<close>

definition readable :: "platform \<Rightarrow> string \<Rightarrow> bool" where
  "readable pf f = (case p_read_pixels pf f of Inl ex \<Rightarrow> False | Inr px \<Rightarrow> True)"

definition reconciles :: "platform \<Rightarrow> string list \<Rightarrow> string \<Rightarrow> bool" where
  "reconciles pf names f =
     (case p_read_pixels pf f of
        Inl ex \<Rightarrow> False
      | Inr px \<Rightarrow>
          (case p_calculate pf px of
             Inl ex \<Rightarrow> False
           | Inr (CDict d) \<Rightarrow> length (List.map_filter (map_of d) names) = length names
           | Inr (COther v) \<Rightarrow> length names = 1
           | Inr other \<Rightarrow> False))"

definition upto_first :: "('a \<Rightarrow> bool) \<Rightarrow> 'a list \<Rightarrow> 'a list" where
  "upto_first P xs = takeWhile (\<lambda>x. \<not> P x) xs @ take 1 (dropWhile (\<lambda>x. \<not> P x) xs)"

definition stale :: "run_context \<Rightarrow> loop_state \<Rightarrow> bool" where
  "stale rc st =
     (case bound_values st of
        None \<Rightarrow> True
      | Some vs \<Rightarrow> length vs \<noteq> length (field_name_list rc))"

section \<open>Properties\<close>

subsection \<open>Appending to the CSV file\<close>

lemma fopen_frame:
  "fopen orc fn w = (r, w1) \<Longrightarrow>
     handles w1 = handles w + (if r then 1 else 0) \<and> writes w1 = writes w \<and>
     posted w1 = posted w \<and> opens w1 = Suc (opens w) \<and>
     (r \<longleftrightarrow> \<not> open_raises orc (opens w)) \<and>
     closes w1 = closes w \<and> (r \<longrightarrow> buffered w1 = []) \<and>
     content w1 = content w \<and>
     (if r then disk w1 = (disk w)(fn \<mapsto> content w fn) else disk w1 = disk w)"
  by (auto simp: fopen_def Let_def content_def fun_eq_iff split: if_splits option.splits)

lemma backoff_and_sleep_frame:
  "backoff_and_sleep orc b w = (x, w1) \<Longrightarrow>
     handles w1 = handles w \<and> writes w1 = writes w \<and> posted w1 = posted w \<and>
     opens w1 = opens w \<and> disk w1 = disk w \<and> closes w1 = closes w \<and>
     buffered w1 = buffered w"
  by (auto simp: backoff_and_sleep_def Let_def split: option.splits)

lemma content_files: "disk w1 = disk w \<Longrightarrow> content w1 = content w"
  by (simp add: content_def fun_eq_iff)



lemma open_loop_done:
  "tries \<ge> MAX_CSV_FILE_OPEN_TRIES \<Longrightarrow> open_loop orc fn tries b w = (False, w)"
  by (subst open_loop.simps) simp

lemma open_loop_ok:
  "tries < MAX_CSV_FILE_OPEN_TRIES \<Longrightarrow> fopen orc fn w = (True, w1) \<Longrightarrow>
   open_loop orc fn tries b w = (True, w1)"
  by (subst open_loop.simps) simp

lemma open_loop_retry:
  "tries < MAX_CSV_FILE_OPEN_TRIES - 1 \<Longrightarrow> fopen orc fn w = (False, w1) \<Longrightarrow>
   backoff_and_sleep orc b w1 = (x, w2) \<Longrightarrow>
   open_loop orc fn tries b w = open_loop orc fn (Suc tries) (Some x) w2"
  by (subst open_loop.simps) auto

lemma open_loop_last:
  "tries < MAX_CSV_FILE_OPEN_TRIES \<Longrightarrow> \<not> tries < MAX_CSV_FILE_OPEN_TRIES - 1 \<Longrightarrow>
   fopen orc fn w = (False, w1) \<Longrightarrow>
   open_loop orc fn tries b w = open_loop orc fn (Suc tries) b w1"
  by (subst open_loop.simps) simp


lemma open_loop_frame:
  "open_loop orc fn tries b w = (r, w1) \<Longrightarrow> open_frame fn w r w1"
proof (induction orc fn tries b w arbitrary: r w1 rule: open_loop.induct)
  case (1 orc fn tries b w)
  obtain ok wa where fo: "fopen orc fn w = (ok, wa)" by (cases "fopen orc fn w")
  note fr = fopen_frame [OF fo]
  obtain x wb where bs: "backoff_and_sleep orc b wa = (x, wb)"
    by (cases "backoff_and_sleep orc b wa")
  note bf = backoff_and_sleep_frame [OF bs]
  consider (exhausted) "tries \<ge> MAX_CSV_FILE_OPEN_TRIES"
    | (ok) "tries < MAX_CSV_FILE_OPEN_TRIES" "ok"
    | (retry) "tries < MAX_CSV_FILE_OPEN_TRIES - 1" "\<not> ok"
    | (last) "tries < MAX_CSV_FILE_OPEN_TRIES" "\<not> tries < MAX_CSV_FILE_OPEN_TRIES - 1" "\<not> ok"
    by linarith
  then show ?case
  proof cases
    case exhausted
    with "1.prems" show ?thesis by (simp add: open_loop_done open_frame_def)
  next
    case ok
    with fo "1.prems" have "r = True" "w1 = wa" by (simp_all add: open_loop_ok)
    with fr ok show ?thesis by (simp add: open_frame_def)
  next
    case retry
    then have nd: "\<not> MAX_CSV_FILE_OPEN_TRIES \<le> tries" by simp
    from retry fo bs "1.prems" have rec: "open_loop orc fn (Suc tries) (Some x) wb = (r, w1)"
      by (simp add: open_loop_retry)
    have "open_frame fn wb r w1"
      using "1.IH"(1) [OF nd fo [symmetric] _ retry(1) bs [symmetric] rec] retry by simp
    then show ?thesis using bf fr retry by (simp add: open_frame_def content_def)
  next
    case last
    then have nd: "\<not> MAX_CSV_FILE_OPEN_TRIES \<le> tries" by simp
    from last fo "1.prems" have rec: "open_loop orc fn (Suc tries) b wa = (r, w1)"
      by (simp add: open_loop_last)
    have "open_frame fn wa r w1"
      using "1.IH"(2) [OF nd fo [symmetric] _ last(2) rec] last by simp
    then show ?thesis using fr last by (simp add: open_frame_def content_def)
  qed
qed


lemma open_loop_succeeds:
  "\<exists>i. tries + i < MAX_CSV_FILE_OPEN_TRIES \<and> \<not> open_raises orc (opens w + i) \<Longrightarrow>
   fst (open_loop orc fn tries b w)"
proof (induction orc fn tries b w rule: open_loop.induct)
  case (1 orc fn tries b w)
  from "1.prems" obtain i where i: "tries + i < MAX_CSV_FILE_OPEN_TRIES"
    "\<not> open_raises orc (opens w + i)" by blast
  obtain okf wa where fo: "fopen orc fn w = (okf, wa)" by (cases "fopen orc fn w")
  note fr = fopen_frame [OF fo]
  obtain x wb where bs: "backoff_and_sleep orc b wa = (x, wb)"
    by (cases "backoff_and_sleep orc b wa")
  note bf = backoff_and_sleep_frame [OF bs]
  from i have nd: "\<not> MAX_CSV_FILE_OPEN_TRIES \<le> tries" by simp
  show ?case
  proof (cases okf)
    case True
    with fo nd show ?thesis by (simp add: open_loop_ok)
  next
    case False
    with fr i obtain j where j: "i = Suc j" by (cases i) auto
    with i fr bf False have nxt: "\<exists>i. Suc tries + i < MAX_CSV_FILE_OPEN_TRIES \<and>
        \<not> open_raises orc (opens wa + i)"
      "\<exists>i. Suc tries + i < MAX_CSV_FILE_OPEN_TRIES \<and> \<not> open_raises orc (opens wb + i)"
      by auto
    show ?thesis
    proof (cases "tries < MAX_CSV_FILE_OPEN_TRIES - 1")
      case True
      have "fst (open_loop orc fn (Suc tries) (Some x) wb)"
        using "1.IH"(1) [OF nd fo [symmetric] _ True bs [symmetric] nxt(2)] False by simp
      with True fo bs False show ?thesis by (simp add: open_loop_retry)
    next
      case last: False
      have "fst (open_loop orc fn (Suc tries) b wa)"
        using "1.IH"(2) [OF nd fo [symmetric] _ last nxt(1)] False by simp
      with last fo nd False show ?thesis by (simp add: open_loop_last)
    qed
  qed
qed

lemma open_loop_fails:
  "\<forall>i. tries + i < MAX_CSV_FILE_OPEN_TRIES \<longrightarrow> open_raises orc (opens w + i) \<Longrightarrow>
   \<not> fst (open_loop orc fn tries b w)"
proof (induction orc fn tries b w rule: open_loop.induct)
  case (1 orc fn tries b w)
  obtain okf wa where fo: "fopen orc fn w = (okf, wa)" by (cases "fopen orc fn w")
  note fr = fopen_frame [OF fo]
  obtain x wb where bs: "backoff_and_sleep orc b wa = (x, wb)"
    by (cases "backoff_and_sleep orc b wa")
  note bf = backoff_and_sleep_frame [OF bs]
  show ?case
  proof (cases "tries \<ge> MAX_CSV_FILE_OPEN_TRIES")
    case True
    then show ?thesis by (simp add: open_loop_done)
  next
    case False
    with "1.prems" [rule_format, of 0] have "open_raises orc (opens w)" by simp
    with fr have nok: "\<not> okf" by simp
    have nxt: "\<forall>i. Suc tries + i < MAX_CSV_FILE_OPEN_TRIES \<longrightarrow> open_raises orc (Suc (opens w) + i)"
    proof (intro allI impI)
      fix i assume "Suc tries + i < MAX_CSV_FILE_OPEN_TRIES"
      with "1.prems" [rule_format, of "Suc i"] show "open_raises orc (Suc (opens w) + i)" by simp
    qed
    show ?thesis
    proof (cases "tries < MAX_CSV_FILE_OPEN_TRIES - 1")
      case True
      from nxt fr bf have n2: "\<forall>i. Suc tries + i < MAX_CSV_FILE_OPEN_TRIES \<longrightarrow>
          open_raises orc (opens wb + i)" by simp
      have "\<not> fst (open_loop orc fn (Suc tries) (Some x) wb)"
        using "1.IH"(1) [OF False fo [symmetric] _ True bs [symmetric] n2] nok by simp
      with True fo bs nok show ?thesis by (simp add: open_loop_retry)
    next
      case last: False
      from nxt fr have n1: "\<forall>i. Suc tries + i < MAX_CSV_FILE_OPEN_TRIES \<longrightarrow>
          open_raises orc (opens wa + i)" by simp
      have "\<not> fst (open_loop orc fn (Suc tries) b wa)"
        using "1.IH"(2) [OF False fo [symmetric] _ last n1] nok by simp
      with last fo False nok show ?thesis by (simp add: open_loop_last)
    qed
  qed
qed

lemma write_body_effect:
  assumes "h \<noteq> []" and "buffered w = []"
    and "write_body orc fn (Some h) d w = (r, w1)"
  shows "handles w1 = handles w \<and> disk w1 = disk w \<and> closes w1 = closes w \<and>
    posted w1 = posted w \<and>
    (r \<longleftrightarrow> \<not> write_raises orc (writes w) \<and>
                (content w fn = [] \<longrightarrow> \<not> write_raises orc (Suc (writes w)))) \<and>
    (r \<longrightarrow> buffered w1 = (if content w fn = [] then h @ [CHR 0x0A] @ d @ [CHR 0x0A]
                                else d @ [CHR 0x0A]))"
  using assms
  by (auto simp: write_body_def fwrite_def Let_def split: if_splits bool.splits prod.splits)

lemma fclose_effect:
  assumes "fclose orc fn w = (r, w1)"
  shows "handles w1 = handles w - 1 \<and> closes w1 = Suc (closes w) \<and> posted w1 = posted w \<and>
    (r \<longleftrightarrow> \<not> close_raises orc (closes w)) \<and>
    (r \<longrightarrow> disk w1 = (disk w)(fn \<mapsto> content w fn @ buffered w))"
  using assms by (auto simp: fclose_def Let_def split: if_splits)

text \<open>
  C10. \<^verbatim>\<open>write_csv_file\<close> called with an empty or \<^verbatim>\<open>None\<close> filename, or an empty or
  \<^verbatim>\<open>None\<close> data string, raises \<^verbatim>\<open>RuntimeError\<close> at once: the state is the one it was
  called in, so no open was attempted, nothing was drawn and nothing slept. It does
  not return the boolean of its other exits.
\<close>

theorem write_csv_file_empty_parameter:
  assumes "filename = None \<or> filename = Some [] \<or> data = None \<or> data = Some []"
  shows "write_csv_file orc filename header data w = (Inl RuntimeError, w)"
  using assms by (auto simp: write_csv_file_def split: option.splits)

theorem write_csv_file_empty_parameter_witness:
  "write_csv_file quiet_env (Some ''out.csv'') (Some ''a,b'') (Some []) fresh_world
     = (Inl RuntimeError, fresh_world) \<and>
   write_csv_file quiet_env None (Some ''a,b'') (Some ''1,2'') fresh_world
     = (Inl RuntimeError, fresh_world)"
  using write_csv_file_empty_parameter [of "Some ''out.csv''" "Some []" quiet_env "Some ''a,b''" fresh_world]
    write_csv_file_empty_parameter [of None "Some ''1,2''" quiet_env "Some ''a,b''" fresh_world]
  by simp

text \<open>
  C2 as stated fails: a call with a non-empty header on a file that does not exist
  writes no line at all when every attempt to open the file fails (the call returns
  \<^verbatim>\<open>False\<close>), and it leaves the header line without a data line when the write of the
  data raises.
\<close>

theorem write_csv_file_no_data_line_counterexample:
  "fst (write_csv_file (quiet_env\<lparr>open_raises := (\<lambda>n. True)\<rparr>)
          (Some ''out.csv'') (Some ''a,b'') (Some ''1,2'') fresh_world) = Inr False \<and>
   disk (snd (write_csv_file (quiet_env\<lparr>open_raises := (\<lambda>n. True)\<rparr>)
          (Some ''out.csv'') (Some ''a,b'') (Some ''1,2'') fresh_world)) ''out.csv'' = None \<and>
   fst (write_csv_file (quiet_env\<lparr>write_raises := (\<lambda>n. n = 1)\<rparr>)
          (Some ''out.csv'') (Some ''a,b'') (Some ''1,2'') fresh_world) = Inr False \<and>
   disk (snd (write_csv_file (quiet_env\<lparr>write_raises := (\<lambda>n. n = 1)\<rparr>)
          (Some ''out.csv'') (Some ''a,b'') (Some ''1,2'') fresh_world)) ''out.csv''
     = Some (''a,b'' @ [CHR 0x0A])"
proof -
  let ?e = "quiet_env\<lparr>open_raises := (\<lambda>n. True)\<rparr>"
  obtain okf w1 where ol: "open_loop ?e ''out.csv'' 0 None fresh_world = (okf, w1)"
    by (cases "open_loop ?e ''out.csv'' 0 None fresh_world")
  have "\<forall>i. 0 + i < MAX_CSV_FILE_OPEN_TRIES \<longrightarrow> open_raises ?e (opens fresh_world + i)"
    by simp
  from open_loop_fails [OF this, of "''out.csv''" None] ol have nok: "\<not> okf" by simp
  with open_loop_frame [OF ol, unfolded open_frame_def] have "disk w1 = disk fresh_world"
    by simp
  with ol nok have a:
    "fst (write_csv_file ?e (Some ''out.csv'') (Some ''a,b'') (Some ''1,2'') fresh_world)
       = Inr False \<and>
     disk (snd (write_csv_file ?e (Some ''out.csv'') (Some ''a,b'') (Some ''1,2'') fresh_world))
       ''out.csv'' = None"
    by (simp add: write_csv_file_def fresh_world_def)
  have b:
    "fst (write_csv_file (quiet_env\<lparr>write_raises := (\<lambda>n. n = 1)\<rparr>)
          (Some ''out.csv'') (Some ''a,b'') (Some ''1,2'') fresh_world) = Inr False \<and>
     disk (snd (write_csv_file (quiet_env\<lparr>write_raises := (\<lambda>n. n = 1)\<rparr>)
          (Some ''out.csv'') (Some ''a,b'') (Some ''1,2'') fresh_world)) ''out.csv''
       = Some (''a,b'' @ [CHR 0x0A])"
    by code_simp
  from a b show ?thesis by simp
qed

text \<open>
  C2, amended. For a call of \<^verbatim>\<open>write_csv_file\<close> with a non-empty file name, header and
  data line: when one of the ten attempts to open the file succeeds and neither a
  write nor the close raises, the call returns \<^verbatim>\<open>True\<close> and the file holds, if it was
  empty or did not exist when opened, exactly the header line followed by the data
  line, and otherwise its former contents followed by the data line only; the header
  decision is made from the size of the file at open time alone, the function having
  nothing else to tell a first call from a later one. When all ten attempts fail the
  call returns \<^verbatim>\<open>False\<close> and the file is untouched. Once the file is open it is closed
  exactly once on every way out, so that the call leaves as many handles open as it
  found: it returns \<^verbatim>\<open>False\<close> when a write raised, and the exception of the close
  leaves the function when the close itself raises.
\<close>

theorem write_csv_file_header_once:
  assumes "fn \<noteq> []" "d \<noteq> []" "h \<noteq> []"
    and call: "write_csv_file orc (Some fn) (Some h) (Some d) w = (r, w')"
  shows "handles w' = handles w \<and>
    ((\<exists>i<MAX_CSV_FILE_OPEN_TRIES. \<not> open_raises orc (opens w + i)) \<and>
       \<not> write_raises orc (writes w) \<and>
       (content w fn = [] \<longrightarrow> \<not> write_raises orc (Suc (writes w))) \<and>
       \<not> close_raises orc (closes w) \<longrightarrow>
     r = Inr True \<and>
     disk w' fn = Some (if content w fn = [] then h @ [CHR 0x0A] @ d @ [CHR 0x0A]
                        else content w fn @ d @ [CHR 0x0A])) \<and>
    ((\<forall>i<MAX_CSV_FILE_OPEN_TRIES. open_raises orc (opens w + i)) \<longrightarrow>
     r = Inr False \<and> disk w' = disk w \<and> closes w' = closes w) \<and>
    ((\<exists>i<MAX_CSV_FILE_OPEN_TRIES. \<not> open_raises orc (opens w + i)) \<longrightarrow>
     closes w' = Suc (closes w) \<and>
     (close_raises orc (closes w) \<longrightarrow> r = Inl IOError) \<and>
     (\<not> close_raises orc (closes w) \<and>
        (write_raises orc (writes w) \<or>
         content w fn = [] \<and> write_raises orc (Suc (writes w))) \<longrightarrow> r = Inr False))"
proof -
  obtain okf w1 where ol: "open_loop orc fn 0 None w = (okf, w1)"
    by (cases "open_loop orc fn 0 None w")
  note of = open_loop_frame [OF ol, unfolded open_frame_def]
  obtain wr w2 where wb: "write_body orc fn (Some h) d w1 = (wr, w2)"
    by (cases "write_body orc fn (Some h) d w1")
  obtain cl w3 where fc: "fclose orc fn w2 = (cl, w3)" by (cases "fclose orc fn w2")
  note ce = fclose_effect [OF fc]
  from call assms(1,2) ol wb fc
  have res: "(r, w') = (if okf then (if cl then Inr wr else Inl IOError, w3) else (Inr False, w1))"
    by (simp add: write_csv_file_def split: bool.splits)
  have opened: "okf \<longleftrightarrow> (\<exists>i<MAX_CSV_FILE_OPEN_TRIES. \<not> open_raises orc (opens w + i))"
  proof
    assume okf
    show "\<exists>i<MAX_CSV_FILE_OPEN_TRIES. \<not> open_raises orc (opens w + i)"
    proof (rule ccontr)
      assume "\<not> (\<exists>i<MAX_CSV_FILE_OPEN_TRIES. \<not> open_raises orc (opens w + i))"
      then have "\<forall>i. 0 + i < MAX_CSV_FILE_OPEN_TRIES \<longrightarrow> open_raises orc (opens w + i)" by simp
      from open_loop_fails [OF this, of fn None] ol \<open>okf\<close> show False by simp
    qed
  next
    assume "\<exists>i<MAX_CSV_FILE_OPEN_TRIES. \<not> open_raises orc (opens w + i)"
    then have "\<exists>i. 0 + i < MAX_CSV_FILE_OPEN_TRIES \<and> \<not> open_raises orc (opens w + i)" by auto
    from open_loop_succeeds [OF this, of fn None] ol show okf by simp
  qed
  show ?thesis
  proof (cases okf)
    case False
    with opened have all: "\<forall>i<MAX_CSV_FILE_OPEN_TRIES. open_raises orc (opens w + i)"
      and nex: "\<not> (\<exists>i<MAX_CSV_FILE_OPEN_TRIES. \<not> open_raises orc (opens w + i))" by auto
    from res False have rw: "r = Inr False" "w' = w1" by simp_all
    from of False have "handles w1 = handles w" "disk w1 = disk w" "closes w1 = closes w"
      by simp_all
    with rw nex show ?thesis by simp
  next
    case True
    with of have f1: "disk w1 = (disk w)(fn \<mapsto> content w fn)" "writes w1 = writes w"
      "closes w1 = closes w" "buffered w1 = []" "handles w1 = Suc (handles w)" by simp_all
    then have c1: "content w1 fn = content w fn" by (simp add: content_def)
    note we = write_body_effect [OF assms(3) f1(4) wb]
    from res True have r: "r = (if cl then Inr wr else Inl IOError)" and w: "w' = w3" by simp_all
    have hd: "handles w' = handles w" using w ce we f1 by simp
    have cls: "closes w' = Suc (closes w)" using w ce we f1 by simp
    have clr: "cl \<longleftrightarrow> \<not> close_raises orc (closes w)" using ce we f1 by simp
    have wrr: "wr \<longleftrightarrow> \<not> write_raises orc (writes w) \<and>
        (content w fn = [] \<longrightarrow> \<not> write_raises orc (Suc (writes w)))"
      using we f1 c1 by simp
    have good: "disk w' fn = Some (if content w fn = [] then h @ [CHR 0x0A] @ d @ [CHR 0x0A]
                        else content w fn @ d @ [CHR 0x0A])" if "cl" "wr"
    proof -
      from that we c1 have b: "buffered w2 = (if content w fn = [] then h @ [CHR 0x0A] @ d @ [CHR 0x0A]
                                else d @ [CHR 0x0A])" by simp
      from we f1 have d2: "content w2 fn = content w fn" by (simp add: content_def)
      from that ce have "disk w3 fn = Some (content w2 fn @ buffered w2)" by simp
      with b d2 w show ?thesis by simp
    qed
    from True opened have ex: "\<exists>i<MAX_CSV_FILE_OPEN_TRIES. \<not> open_raises orc (opens w + i)"
      and nall: "\<not> (\<forall>i<MAX_CSV_FILE_OPEN_TRIES. open_raises orc (opens w + i))" by auto
    have p1: "\<not> write_raises orc (writes w) \<and>
       (content w fn = [] \<longrightarrow> \<not> write_raises orc (Suc (writes w))) \<and>
       \<not> close_raises orc (closes w) \<longrightarrow>
     r = Inr True \<and>
     disk w' fn = Some (if content w fn = [] then h @ [CHR 0x0A] @ d @ [CHR 0x0A]
                        else content w fn @ d @ [CHR 0x0A])"
      using r clr wrr good by auto
    have p2: "close_raises orc (closes w) \<longrightarrow> r = Inl IOError" using r clr by simp
    have p3: "\<not> close_raises orc (closes w) \<and>
        (write_raises orc (writes w) \<or>
         content w fn = [] \<and> write_raises orc (Suc (writes w))) \<longrightarrow> r = Inr False"
      using r clr wrr by auto
    from hd cls p1 p2 p3 nall show ?thesis by blast
  qed
qed

theorem write_csv_file_header_once_witness:
  "(case write_csv_file quiet_env (Some ''out.csv'') (Some ''a,b'') (Some ''1,2'') fresh_world of
      (r, w1) \<Rightarrow>
        r = Inr True \<and> handles w1 = 0 \<and>
        disk w1 ''out.csv'' = Some (''a,b'' @ [CHR 0x0A] @ ''1,2'' @ [CHR 0x0A]) \<and>
        (case write_csv_file quiet_env (Some ''out.csv'') (Some ''a,b'') (Some ''3,4'') w1 of
           (r2, w2) \<Rightarrow>
             r2 = Inr True \<and> handles w2 = 0 \<and>
             disk w2 ''out.csv'' =
               Some (''a,b'' @ [CHR 0x0A] @ ''1,2'' @ [CHR 0x0A] @ ''3,4'' @ [CHR 0x0A])))"
proof -
  obtain r w1 where c1:
    "write_csv_file quiet_env (Some ''out.csv'') (Some ''a,b'') (Some ''1,2'') fresh_world = (r, w1)"
    by (cases "write_csv_file quiet_env (Some ''out.csv'') (Some ''a,b'') (Some ''1,2'') fresh_world")
  obtain r2 w2 where c2:
    "write_csv_file quiet_env (Some ''out.csv'') (Some ''a,b'') (Some ''3,4'') w1 = (r2, w2)"
    by (cases "write_csv_file quiet_env (Some ''out.csv'') (Some ''a,b'') (Some ''3,4'') w1")
  have q: "\<exists>i<MAX_CSV_FILE_OPEN_TRIES. \<not> open_raises quiet_env (opens w + i)" for w
    by (rule exI [of _ 0]) (simp add: quiet_env_def MAX_CSV_FILE_OPEN_TRIES_def)
  have first: "r = Inr True \<and> handles w1 = 0 \<and>
      disk w1 ''out.csv'' = Some (''a,b'' @ [CHR 0x0A] @ ''1,2'' @ [CHR 0x0A])"
    using write_csv_file_header_once [OF _ _ _ c1] q [of fresh_world]
    by (simp add: quiet_env_def fresh_world_def content_def)
  then have "content w1 ''out.csv'' = ''a,b'' @ [CHR 0x0A] @ ''1,2'' @ [CHR 0x0A]"
    by (simp add: content_def)
  then have second: "r2 = Inr True \<and> handles w2 = 0 \<and>
      disk w2 ''out.csv'' =
        Some (''a,b'' @ [CHR 0x0A] @ ''1,2'' @ [CHR 0x0A] @ ''3,4'' @ [CHR 0x0A])"
    using write_csv_file_header_once [OF _ _ _ c2] q [of w1] first
    by (simp add: quiet_env_def)
  from c1 c2 first second show ?thesis by simp
qed

subsection \<open>Image bounds\<close>

lemma py_ne_NaN: "py_ne x NaN"
  by (cases x) (simp_all add: py_ne_def)

lemma set_AList_update: "set (AList.update k v al) \<subseteq> insert (k, v) (set al)"
  by (induction al) auto

lemma load_image_files_loop_ring:
  assumes "load_image_files_loop lib files acc = Inr m"
    and "\<forall>(f, p) \<in> set acc. R f p"
    and "\<And>f code. f \<in> set files \<Longrightarrow>
           R f \<lparr>ring = [(min_x (image_get_geobounds lib f), max_y (image_get_geobounds lib f)),
                        (max_x (image_get_geobounds lib f), max_y (image_get_geobounds lib f)),
                        (max_x (image_get_geobounds lib f), min_y (image_get_geobounds lib f)),
                        (min_x (image_get_geobounds lib f), min_y (image_get_geobounds lib f)),
                        (min_x (image_get_geobounds lib f), max_y (image_get_geobounds lib f))],
                spatial_ref = code\<rparr>"
  shows "\<forall>(f, p) \<in> set m. R f p"
  using assms
proof (induction files arbitrary: acc)
  case Nil
  then show ?case by simp
next
  case (Cons onefile rest)
  from Cons.prems(1) obtain e code where
    step: "load_image_files_loop lib rest
             (AList.update onefile
                \<lparr>ring = [(min_x (image_get_geobounds lib onefile), max_y (image_get_geobounds lib onefile)),
                         (max_x (image_get_geobounds lib onefile), max_y (image_get_geobounds lib onefile)),
                         (max_x (image_get_geobounds lib onefile), min_y (image_get_geobounds lib onefile)),
                         (min_x (image_get_geobounds lib onefile), min_y (image_get_geobounds lib onefile)),
                         (min_x (image_get_geobounds lib onefile), max_y (image_get_geobounds lib onefile))],
                 spatial_ref = code\<rparr> acc) = Inr m"
    by (auto simp: Let_def py_ne_NaN split: option.splits if_splits)
  have "\<forall>(f, p) \<in> set (AList.update onefile
                \<lparr>ring = [(min_x (image_get_geobounds lib onefile), max_y (image_get_geobounds lib onefile)),
                         (max_x (image_get_geobounds lib onefile), max_y (image_get_geobounds lib onefile)),
                         (max_x (image_get_geobounds lib onefile), min_y (image_get_geobounds lib onefile)),
                         (min_x (image_get_geobounds lib onefile), min_y (image_get_geobounds lib onefile)),
                         (min_x (image_get_geobounds lib onefile), max_y (image_get_geobounds lib onefile))],
                 spatial_ref = code\<rparr> acc). R f p"
    using Cons.prems(2) Cons.prems(3) [of onefile code] set_AList_update [of onefile _ acc]
    by (auto simp del: AList.update.simps)
  from Cons.IH [OF step this] Cons.prems(3) show ?case by simp
qed

text \<open>
  The ring of a returned candidate is always the five points (minX, maxY),
  (maxX, maxY), (maxX, minY), (minX, minY), (minX, maxY) taken from the bounds of its
  file; its first and last points are equal as floats when those bounds are numbers.
\<close>

lemma load_image_files_ring_points:
  assumes "load_image_files lib files = Inr m" and "(f, p) \<in> set m"
  shows "ring p = [(min_x (image_get_geobounds lib f), max_y (image_get_geobounds lib f)),
                   (max_x (image_get_geobounds lib f), max_y (image_get_geobounds lib f)),
                   (max_x (image_get_geobounds lib f), min_y (image_get_geobounds lib f)),
                   (min_x (image_get_geobounds lib f), min_y (image_get_geobounds lib f)),
                   (min_x (image_get_geobounds lib f), max_y (image_get_geobounds lib f))]"
proof -
  let ?R = "\<lambda>f p. ring p = [(min_x (image_get_geobounds lib f), max_y (image_get_geobounds lib f)),
                   (max_x (image_get_geobounds lib f), max_y (image_get_geobounds lib f)),
                   (max_x (image_get_geobounds lib f), min_y (image_get_geobounds lib f)),
                   (min_x (image_get_geobounds lib f), min_y (image_get_geobounds lib f)),
                   (min_x (image_get_geobounds lib f), max_y (image_get_geobounds lib f))]"
  have "\<forall>(f, p) \<in> set m. ?R f p"
    by (rule load_image_files_loop_ring [where R = ?R and acc = "[]" and files = files and lib = lib])
       (use assms(1) in \<open>simp_all add: load_image_files_def\<close>)
  with assms(2) show ?thesis by blast
qed

lemma point_ne_same: "point_ne (a, b) (a, b) \<longleftrightarrow> a = NaN \<or> b = NaN"
  by (cases a; cases b) (simp_all add: point_ne_def py_ne_def)

lemma load_image_files_ring_closed_when_finite:
  assumes "load_image_files lib files = Inr m" and "(f, p) \<in> set m"
    and "min_x (image_get_geobounds lib f) \<noteq> NaN" and "max_y (image_get_geobounds lib f) \<noteq> NaN"
  shows "length (ring p) = 5 \<and> \<not> point_ne (hd (ring p)) (last (ring p))"
  using load_image_files_ring_points [OF assms(1,2)] assms(3,4)
  by (simp add: point_ne_same)

lemma load_image_files_loop_keys:
  "load_image_files_loop lib files acc = Inr m \<Longrightarrow> fst ` set m = fst ` set acc \<union> set files"
proof (induction files arbitrary: acc)
  case Nil
  then show ?case by simp
next
  case (Cons onefile rest)
  from Cons.prems obtain p where
    "load_image_files_loop lib rest (AList.update onefile p acc) = Inr m"
    by (auto simp: Let_def py_ne_NaN split: option.splits if_splits)
  from Cons.IH [OF this] show ?case by (auto simp: dom_update simp del: AList.update.simps)
qed

lemma load_image_files_keeps_every_file:
  "load_image_files lib files = Inr m \<Longrightarrow> fst ` set m = set files"
  using load_image_files_loop_keys [of lib files "[]" m] by (simp add: load_image_files_def)

text \<open>
  C4 (the code does otherwise). The test \<^verbatim>\<open>bounds[0] != np.nan\<close> holds for every
  float, NaN included, so a file without georeferencing is not skipped: with an EPSG
  code it is returned as a candidate whose ring is made of NaN, and without one the
  whole call raises \<^verbatim>\<open>RuntimeError\<close>, so the remaining files are not processed.
\<close>

theorem load_image_files_nan_bounds_kept:
  "load_image_files example_lib [''plain.tif'', ''plot.tif''] =
     Inr [(''plain.tif'', \<lparr>ring = [(NaN, NaN), (NaN, NaN), (NaN, NaN), (NaN, NaN), (NaN, NaN)],
                            spatial_ref = 4326\<rparr>),
          (''plot.tif'', \<lparr>ring = [(Fin 0, Fin 1), (Fin 1, Fin 1), (Fin 1, Fin 0), (Fin 0, Fin 0),
                                   (Fin 0, Fin 1)], spatial_ref = 4326\<rparr>)] \<and>
   load_image_files example_lib [''bare.tif'', ''plot.tif''] = Inl RuntimeError"
  by (simp add: load_image_files_def example_lib_def unit_bounds_def nan_bounds_def py_ne_def
      Let_def)

text \<open>
  C7 (the code does otherwise). Because the test \<^verbatim>\<open>bounds[0] != np.nan\<close> lets a file
  without georeferencing through (see C4), \<^verbatim>\<open>load_image_files\<close> returns for it a
  candidate whose ring is five times the point (NaN, NaN): not the extremes of a
  bounding box, and not closed, its first point being unequal to its last as floats.
\<close>

theorem load_image_files_nan_ring_not_closed:
  "(case load_image_files example_lib [''plain.tif''] of
      Inl ex \<Rightarrow> False
    | Inr m \<Rightarrow>
        (case m of
           [(f, p)] \<Rightarrow>
             f = ''plain.tif'' \<and>
             ring p = [(NaN, NaN), (NaN, NaN), (NaN, NaN), (NaN, NaN), (NaN, NaN)] \<and>
             point_ne (hd (ring p)) (last (ring p))
         | other \<Rightarrow> False))"
  by (simp add: load_image_files_def example_lib_def nan_bounds_def py_ne_def point_ne_def
      Let_def)

subsection \<open>Merging the metadata files\<close>

lemma dict_get_set:
  "dict_get (dict_set d k v) k' = (if key_eq k k' then Some v else dict_get d k')"
  by (induction d) (auto simp: key_eq_def)

lemma members_lookup_Cons:
  "members_lookup ((k1, v1) # kvs) k =
     (case members_lookup kvs k of Some v \<Rightarrow> Some v | None \<Rightarrow> if k1 = k then Some v1 else None)"
  by (simp add: members_lookup_def map_add_def split: option.splits)

lemma update_members_get:
  "dict_get (update_members d kvs) (JStr k) =
     (case members_lookup kvs k of Some v \<Rightarrow> Some v | None \<Rightarrow> dict_get d (JStr k))"
proof (induction kvs arbitrary: d)
  case Nil
  then show ?case by (simp add: members_lookup_def)
next
  case (Cons kv kvs)
  obtain k1 v1 where kv: "kv = (k1, v1)" by (cases kv)
  show ?case
    by (simp add: kv Cons.IH dict_get_set members_lookup_Cons key_eq_def split: option.splits)
qed

lemma load_metadata_loop_get:
  assumes "\<forall>f \<in> set files. \<exists>kvs. json_load f = Inr (JObj kvs)"
  shows "dict_get (load_metadata_loop json_load files d) (JStr k) =
     (case last_defined json_load files k of Some v \<Rightarrow> Some v | None \<Rightarrow> dict_get d (JStr k))"
  using assms
proof (induction files arbitrary: d)
  case Nil
  then show ?case by simp
next
  case (Cons f fs)
  then obtain kvs where f: "json_load f = Inr (JObj kvs)" by auto
  from Cons.prems have rest: "\<forall>f \<in> set fs. \<exists>kvs. json_load f = Inr (JObj kvs)" by simp
  show ?case
  proof (cases "kvs = []")
    case True
    with f Cons.IH [OF rest] show ?thesis
      by (simp add: file_members_def members_lookup_def split: option.splits)
  next
    case False
    with f Cons.IH [OF rest] show ?thesis
      by (simp add: file_members_def update_members_get split: option.splits)
  qed
qed

lemma last_defined_defines:
  "last_defined json_load fs k = Some a \<Longrightarrow>
   \<exists>j < length fs. members_lookup (file_members json_load (fs ! j)) k \<noteq> None"
proof (induction fs arbitrary: a)
  case Nil
  then show ?case by simp
next
  case (Cons g gs)
  show ?case
  proof (cases "last_defined json_load gs k")
    case None
    with Cons.prems have "members_lookup (file_members json_load g) k \<noteq> None"
      by simp
    then show ?thesis by (intro exI [of _ 0]) simp
  next
    case (Some b)
    from Cons.IH [OF Some] obtain j where j: "j < length gs"
      "members_lookup (file_members json_load (gs ! j)) k \<noteq> None" by blast
    show ?thesis by (rule exI [of _ "Suc j"]) (use j in simp)
  qed
qed

lemma last_defined_index:
  assumes "i < length files"
    and "members_lookup (file_members json_load (files ! i)) k = Some v"
    and "\<forall>j. i < j \<and> j < length files \<longrightarrow>
           members_lookup (file_members json_load (files ! j)) k = None"
  shows "last_defined json_load files k = Some v"
  using assms
proof (induction files arbitrary: i)
  case Nil
  then show ?case by simp
next
  case (Cons f fs)
  show ?case
  proof (cases i)
    case 0
    have "last_defined json_load fs k = None"
    proof (cases "last_defined json_load fs k")
      case None
      then show ?thesis .
    next
      case (Some a)
      from last_defined_defines [OF this] obtain j where
        "j < length fs" "members_lookup (file_members json_load (fs ! j)) k \<noteq> None" by blast
      with Cons.prems(3) [rule_format, of "Suc j"] 0 show ?thesis by simp
    qed
    with Cons.prems(2) 0 show ?thesis by simp
  next
    case (Suc n)
    with Cons.prems have "n < length fs"
      "members_lookup (file_members json_load (fs ! n)) k = Some v"
      "\<forall>j. n < j \<and> j < length fs \<longrightarrow> members_lookup (file_members json_load (fs ! j)) k = None"
      by auto
    from Cons.IH [OF this] show ?thesis by simp
  qed
qed

text \<open>
  C6. When every file of the list parses to a mapping, \<^verbatim>\<open>load_metadata\<close> returns their
  shallow merge in input order: a key has, in the result, the whole value that the last
  file defining it gives it (file \<open>i\<close> defines \<open>k\<close> as \<open>v\<close>, and no later file
  defines \<open>k\<close>).
\<close>

theorem load_metadata_last_file_wins:
  assumes "\<forall>f \<in> set files. \<exists>kvs. json_load f = Inr (JObj kvs)"
    and "i < length files"
    and "members_lookup (file_members json_load (files ! i)) k = Some v"
    and "\<forall>j. i < j \<and> j < length files \<longrightarrow>
           members_lookup (file_members json_load (files ! j)) k = None"
  shows "dict_get (load_metadata json_load files) (JStr k) = Some v"
proof -
  from assms(2) have ne: "files \<noteq> []" by auto
  from last_defined_index [OF assms(2,3,4)] load_metadata_loop_get [OF assms(1), of "[]" k]
  show ?thesis by (simp add: load_metadata_def ne)
qed

theorem load_metadata_last_file_wins_witness:
  "dict_get (load_metadata example_json [''a.json'', ''b.json'']) (JStr ''site'')
     = Some (JStr ''south'') \<and>
   members_lookup (file_members example_json ''a.json'') ''site'' = Some (JStr ''north'')"
proof -
  have all: "\<forall>f \<in> set [''a.json'', ''b.json'']. \<exists>kvs. example_json f = Inr (JObj kvs)"
    by (simp add: example_json_def)
  have i: "(1 :: nat) < length [''a.json'', ''b.json'']" by simp
  have d: "members_lookup (file_members example_json ([''a.json'', ''b.json''] ! 1)) ''site''
             = Some (JStr ''south'')"
    by (simp add: example_json_def file_members_def members_lookup_def)
  have l: "\<forall>j. 1 < j \<and> j < length [''a.json'', ''b.json''] \<longrightarrow>
      members_lookup (file_members example_json ([''a.json'', ''b.json''] ! j)) ''site'' = None"
    by auto
  have a: "members_lookup (file_members example_json ''a.json'') ''site'' = Some (JStr ''north'')"
    by (simp add: example_json_def file_members_def members_lookup_def)
  from load_metadata_last_file_wins [OF all i d l] a show ?thesis by simp
qed

subsection \<open>Uploading to the trait database\<close>

text \<open>
  C5 as stated fails: a response whose status is neither 200 nor 201 makes the
  function raise only when \<^verbatim>\<open>raise_for_status\<close> raises, that is for a status from 400
  to 599. For status 204 the function logs the error and returns \<^verbatim>\<open>None\<close>.
\<close>

theorem update_betydb_status_204_returns_None:
  "fst (update_betydb (answering 204 None) ''h'' [''r''] fresh_world) = Inr None"
  by (simp add: update_betydb_def answering_def raise_for_status_def Let_def)

text \<open>
  C5, amended. \<^verbatim>\<open>update_betydb\<close> returns the value at the path
  \<^verbatim>\<open>data.ids_of_new_traits\<close> of the response when the status is 200 or 201 and the body
  carries that path, and it returns a value other than \<^verbatim>\<open>None\<close> only then. It raises
  \<^verbatim>\<open>HTTPError\<close> for a status from 400 to 599, and for any other status it returns
  \<^verbatim>\<open>None\<close> without raising. In every case the files on disk are as they were.
\<close>

theorem update_betydb_by_status:
  assumes "http_post (join linesep (hdr # rows)) = Inr resp"
    and "update_betydb http_post hdr rows w = (res, w')"
  shows "disk w' = disk w \<and>
    ((status_code resp = 200 \<or> status_code resp = 201) \<and> body resp = Some j \<and>
       py_getitem j ''data'' = Inr d \<and> py_getitem d ''ids_of_new_traits'' = Inr ids
       \<longrightarrow> res = Inr (Some ids)) \<and>
    (400 \<le> status_code resp \<and> status_code resp < 600 \<longrightarrow> res = Inl HTTPError) \<and>
    (status_code resp \<noteq> 200 \<and> status_code resp \<noteq> 201 \<and>
       \<not> (400 \<le> status_code resp \<and> status_code resp < 600) \<longrightarrow> res = Inr None) \<and>
    (\<forall>v. res = Inr (Some v) \<longrightarrow>
       (status_code resp = 200 \<or> status_code resp = 201) \<and>
       (\<exists>j' d'. body resp = Some j' \<and> py_getitem j' ''data'' = Inr d' \<and>
                 py_getitem d' ''ids_of_new_traits'' = Inr v))"
  using assms
  by (auto simp: update_betydb_def raise_for_status_def Let_def
           split: option.splits sum.splits if_splits)

theorem update_betydb_by_status_witness:
  "fst (update_betydb
          (answering 201
             (Some (JObj [(''data'', JObj [(''ids_of_new_traits'', JArr [JNum 1, JNum 2])])])))
          ''h'' [''r1'', ''r2''] fresh_world)
     = Inr (Some (JArr [JNum 1, JNum 2])) \<and>
   fst (update_betydb (answering 500 None) ''h'' [''r1'', ''r2''] fresh_world) = Inl HTTPError \<and>
   disk (snd (update_betydb (answering 500 None) ''h'' [''r1'', ''r2''] fresh_world))
     = disk fresh_world"
proof -
  let ?ok = "answering 201
      (Some (JObj [(''data'', JObj [(''ids_of_new_traits'', JArr [JNum 1, JNum 2])])]))"
  have p1: "?ok (join linesep (''h'' # [''r1'', ''r2''])) =
      Inr \<lparr>status_code = 201, reason = [],
           body = Some (JObj [(''data'', JObj [(''ids_of_new_traits'', JArr [JNum 1, JNum 2])])])\<rparr>"
    by (simp add: answering_def)
  have p2: "answering 500 None (join linesep (''h'' # [''r1'', ''r2''])) =
      Inr \<lparr>status_code = 500, reason = [], body = None\<rparr>"
    by (simp add: answering_def)
  have c1: "update_betydb ?ok ''h'' [''r1'', ''r2''] fresh_world =
      (fst (update_betydb ?ok ''h'' [''r1'', ''r2''] fresh_world),
       snd (update_betydb ?ok ''h'' [''r1'', ''r2''] fresh_world))" by simp
  have c2: "update_betydb (answering 500 None) ''h'' [''r1'', ''r2''] fresh_world =
      (fst (update_betydb (answering 500 None) ''h'' [''r1'', ''r2''] fresh_world),
       snd (update_betydb (answering 500 None) ''h'' [''r1'', ''r2''] fresh_world))" by simp
  from update_betydb_by_status [OF p1 c1,
      of "JObj [(''data'', JObj [(''ids_of_new_traits'', JArr [JNum 1, JNum 2])])]"
         "JObj [(''ids_of_new_traits'', JArr [JNum 1, JNum 2])]" "JArr [JNum 1, JNum 2]"]
  have r1: "fst (update_betydb ?ok ''h'' [''r1'', ''r2''] fresh_world)
      = Inr (Some (JArr [JNum 1, JNum 2]))"
    by (simp add: members_lookup_def)
  from update_betydb_by_status [OF p2 c2]
  have r2: "fst (update_betydb (answering 500 None) ''h'' [''r1'', ''r2''] fresh_world) = Inl HTTPError"
    "disk (snd (update_betydb (answering 500 None) ''h'' [''r1'', ''r2''] fresh_world))
       = disk fresh_world"
    by simp_all
  from r1 r2 show ?thesis by simp
qed

subsection \<open>The defaults of the trait schema\<close>

lemma fill_traits_map_of:
  "map_of (fill_traits g flds traits) f =
     (if f \<in> set flds then Some (get_default_trait g f) else map_of traits f)"
  by (induction flds arbitrary: traits) (auto simp: update_conv')

text \<open>
  C9 as stated fails. \<^verbatim>\<open>init_extraction\<close> stores the sensor name in the first place of
  \<^verbatim>\<open>TRAIT_NAME_ARRAY_VALUE\<close>, which held \<^verbatim>\<open>'site'\<close>. For the extractor
  \<^verbatim>\<open>Canopy Cover\<close> with the variable \<^verbatim>\<open>canopy_cover\<close>, the table then gives
  \<^verbatim>\<open>canopy_cover\<close> the empty list (not the empty string) and \<^verbatim>\<open>site\<close> the empty string
  (not the empty list).
\<close>

theorem site_default_after_init_counterexample:
  "(case init_extraction example_conf ''Canopy Cover'' None module_globals of
      Inl ex \<Rightarrow> False
    | Inr g \<Rightarrow>
        (case get_bety_traits_table g of
           Inl ex \<Rightarrow> False
         | Inr (flds, traits) \<Rightarrow>
             map_of traits ''site'' = Some (TStr []) \<and>
             map_of traits ''canopy_cover'' = Some TList))"
  by (simp add: init_extraction_def example_conf_def module_globals_def strip_def is_space_def
      replace_char_def lower_def lower_char_def Let_def get_bety_traits_table_def
      get_bety_fields_def get_default_trait_def)

text \<open>
  C9, amended. After \<^verbatim>\<open>init_extraction\<close> with a valid name, the table of
  \<^verbatim>\<open>get_bety_traits_table\<close> gives the empty list to the field whose name is the sensor
  name derived from the extractor name; every other field of the literal map has its
  constant (\<^verbatim>\<open>access_level\<close> 2, \<^verbatim>\<open>species\<close> Unknown, the three citation fields from
  the configuration, \<^verbatim>\<open>method\<close> empty), and every remaining field other than
  \<^verbatim>\<open>site\<close> has the empty string. Nothing is stated about \<^verbatim>\<open>site\<close> when it is not the
  sensor name.
\<close>

theorem get_bety_traits_table_defaults:
  assumes "init_extraction conf name method_name module_globals = Inr g"
    and "get_bety_traits_table g = Inr (flds, traits)"
  shows "\<exists>sensor. SENSOR_NAME g = Some sensor \<and>
    (\<forall>f \<in> set flds.
       (f = sensor \<longrightarrow> map_of traits f = Some TList) \<and>
       (f \<noteq> sensor \<and> f \<noteq> ''site'' \<longrightarrow>
          map_of traits f =
            Some (case map_of (TRAIT_NAME_MAP g) f of Some v \<Rightarrow> TStr v | None \<Rightarrow> TStr []))) \<and>
    map_of (TRAIT_NAME_MAP g) ''access_level'' = Some ''2'' \<and>
    map_of (TRAIT_NAME_MAP g) ''species'' = Some ''Unknown'' \<and>
    map_of (TRAIT_NAME_MAP g) ''citation_author'' = Some (CITATION_AUTHOR conf) \<and>
    map_of (TRAIT_NAME_MAP g) ''citation_year'' = Some (CITATION_YEAR conf) \<and>
    map_of (TRAIT_NAME_MAP g) ''citation_title'' = Some (CITATION_TITLE conf) \<and>
    map_of (TRAIT_NAME_MAP g) ''method'' = Some []"
proof -
  from assms(1) obtain sensor where
    s: "SENSOR_NAME g = Some sensor" and a: "TRAIT_NAME_ARRAY_VALUE g = [sensor]"
    by (auto simp: init_extraction_def module_globals_def Let_def split: if_splits)
  from assms(2) have t: "traits = fill_traits g flds []"
    by (auto simp: get_bety_traits_table_def split: sum.splits)
  have tab: "\<forall>f \<in> set flds.
       (f = sensor \<longrightarrow> map_of traits f = Some TList) \<and>
       (f \<noteq> sensor \<and> f \<noteq> ''site'' \<longrightarrow>
          map_of traits f =
            Some (case map_of (TRAIT_NAME_MAP g) f of Some v \<Rightarrow> TStr v | None \<Rightarrow> TStr []))"
    by (simp add: t fill_traits_map_of get_default_trait_def a)
  have m: "map_of (TRAIT_NAME_MAP g) ''access_level'' = Some ''2'' \<and>
    map_of (TRAIT_NAME_MAP g) ''species'' = Some ''Unknown'' \<and>
    map_of (TRAIT_NAME_MAP g) ''citation_author'' = Some (CITATION_AUTHOR conf) \<and>
    map_of (TRAIT_NAME_MAP g) ''citation_year'' = Some (CITATION_YEAR conf) \<and>
    map_of (TRAIT_NAME_MAP g) ''citation_title'' = Some (CITATION_TITLE conf) \<and>
    map_of (TRAIT_NAME_MAP g) ''method'' = Some []"
    using assms(1)
    by (auto simp: init_extraction_def module_globals_def Let_def update_conv'
          simp del: AList.update.simps split: if_splits option.splits)
  from s tab m show ?thesis by blast
qed

theorem get_bety_traits_table_defaults_witness:
  "(case init_extraction example_conf ''Canopy Cover'' None module_globals of
      Inl ex \<Rightarrow> False
    | Inr g \<Rightarrow>
        (case get_bety_traits_table g of
           Inl ex \<Rightarrow> False
         | Inr (flds, traits) \<Rightarrow>
             SENSOR_NAME g = Some ''canopy_cover'' \<and>
             map_of traits ''canopy_cover'' = Some TList \<and>
             map_of traits ''citation_author'' = Some (TStr ''Doe'') \<and>
             map_of traits ''local_datetime'' = Some (TStr [])))"
proof -
  obtain g where i: "init_extraction example_conf ''Canopy Cover'' None module_globals = Inr g"
    by (simp add: init_extraction_def module_globals_def Let_def)
  from i have sn: "SENSOR_NAME g = Some ''canopy_cover''"
    and fl: "FIELD_NAME_LIST g = Some [''canopy_cover'']"
    and ca: "CITATION_AUTHOR example_conf = ''Doe''"
    and nm: "map_of (TRAIT_NAME_MAP g) ''local_datetime'' = None"
    by (auto simp: init_extraction_def example_conf_def module_globals_def strip_def is_space_def
        replace_char_def lower_def lower_char_def Let_def)
  obtain flds traits where t: "get_bety_traits_table g = Inr (flds, traits)"
    and m: "''canopy_cover'' \<in> set flds" "''citation_author'' \<in> set flds"
      "''local_datetime'' \<in> set flds"
    by (simp add: get_bety_traits_table_def get_bety_fields_def fl)
  from get_bety_traits_table_defaults [OF i t] sn m ca nm
  have "map_of traits ''canopy_cover'' = Some TList \<and>
        map_of traits ''citation_author'' = Some (TStr ''Doe'') \<and>
        map_of traits ''local_datetime'' = Some (TStr [])"
    by auto
  with i t sn show ?thesis by simp
qed

subsection \<open>The loop over the images\<close>

lemma image_try_effect:
  assumes "image_try pf rc f st = (r, st1)" and "stale rc st"
  shows "calc_calls st1 = calc_calls st @ (if readable pf f then [f] else [])"
    and "r = None \<longleftrightarrow> reconciles pf (field_name_list rc) f"
    and "r \<noteq> None \<Longrightarrow> stale rc st1 \<and> bety_rows st1 = bety_rows st"
    and "r = None \<Longrightarrow> length (bety_rows st1) =
           length (bety_rows st) + (if create_csv_files rc \<or> store_in_betydb rc then 1 else 0)"
proof -
  show "calc_calls st1 = calc_calls st @ (if readable pf f then [f] else [])"
    using assms(1)
    by (auto simp: image_try_def readable_def Let_def
        split: sum.splits option.splits if_splits)
  show "r = None \<longleftrightarrow> reconciles pf (field_name_list rc) f"
  proof (cases "p_read_pixels pf f")
    case (Inl a)
    with assms(1) show ?thesis by (auto simp: image_try_def reconciles_def)
  next
    case (Inr px)
    show ?thesis
    proof (cases "p_calculate pf px")
      case (Inl a)
      with Inr assms(1) show ?thesis by (auto simp: image_try_def reconciles_def Let_def)
    next
      case cv: (Inr c)
      show ?thesis using Inr cv assms
        by (cases c)
          (auto simp: image_try_def reconciles_def stale_def Let_def
             split: option.splits if_splits)
    qed
  qed
  show "stale rc st1 \<and> bety_rows st1 = bety_rows st" if "r \<noteq> None"
  proof (cases "p_read_pixels pf f")
    case (Inl a)
    with assms show ?thesis by (auto simp: image_try_def)
  next
    case (Inr px)
    show ?thesis
    proof (cases "p_calculate pf px")
      case (Inl a)
      with Inr assms show ?thesis by (auto simp: image_try_def stale_def Let_def)
    next
      case cv: (Inr c)
      show ?thesis using Inr cv assms that
        by (cases c)
          (auto simp: image_try_def stale_def Let_def split: option.splits if_splits)
    qed
  qed
  show "length (bety_rows st1) =
      length (bety_rows st) + (if create_csv_files rc \<or> store_in_betydb rc then 1 else 0)"
    if "r = None"
    using assms(1) that
    by (auto simp: image_try_def Let_def split: sum.splits option.splits if_splits)
qed


lemma upto_first_Cons:
  "upto_first P (x # xs) = (if P x then [x] else x # upto_first P xs)"
  by (simp add: upto_first_def)

lemma images_loop_effect:
  assumes "images_loop pf rc fs st w = (ex, st', w')"
    and "stale rc st"
    and "num_loaded_files rc > 1 \<or> length fs \<le> 1"
  shows "calc_calls st' =
      calc_calls st @ filter (readable pf) (upto_first (reconciles pf (field_name_list rc)) fs) \<and>
    length (bety_rows st') =
      length (bety_rows st) +
      (if (\<exists>f \<in> set fs. reconciles pf (field_name_list rc) f) \<and>
          (create_csv_files rc \<or> store_in_betydb rc) then 1 else 0)"
  using assms
proof (induction fs arbitrary: st w)
  case Nil
  then show ?case by (simp add: upto_first_def)
next
  case (Cons f fs)
  obtain r st1 where it: "image_try pf rc f st = (r, st1)" by (cases "image_try pf rc f st")
  note eff = image_try_effect [OF it Cons.prems(2)]
  show ?case
  proof (cases r)
    case (Some e)
    with eff have nr: "\<not> reconciles pf (field_name_list rc) f" and st1: "stale rc st1"
      and rows: "bety_rows st1 = bety_rows st" by auto
    from Cons.prems(1) it Some have rec: "images_loop pf rc fs st1 w = (ex, st', w')" by simp
    from Cons.prems(3) have sh: "num_loaded_files rc > 1 \<or> length fs \<le> 1" by auto
    from Cons.IH [OF rec st1 sh] eff(1) nr rows show ?thesis
      by (simp add: upto_first_Cons)
  next
    case None
    with eff have ok: "reconciles pf (field_name_list rc) f" by simp
    then have rd: "readable pf f"
      by (auto simp: reconciles_def readable_def split: sum.splits)
    have last: "st' = st1"
    proof (cases "num_loaded_files rc > 1")
      case True
      with Cons.prems(1) it None show ?thesis
        by (auto split: if_splits prod.splits option.splits)
    next
      case False
      with Cons.prems(3) have "fs = []" by simp
      with Cons.prems(1) it None show ?thesis
        by (auto split: if_splits prod.splits option.splits)
    qed
    from eff(1) eff(4) [OF None] ok rd last show ?thesis
      by (simp add: upto_first_Cons)
  qed
qed



lemma image_try_list_unbound:
  assumes "p_read_pixels pf f = Inr px"
    and "p_calculate pf px = Inr (CList xs) \<or> p_calculate pf px = Inr (CTuple xs)"
    and "bound_values st = None"
  shows "fst (image_try pf rc f st) = Some UnboundLocalError"
  using assms by (auto simp: image_try_def Let_def)

text \<open>
  C1 (the code does otherwise). No branch of the type tests binds \<^verbatim>\<open>values\<close> when the
  algorithm returns a list or a tuple, so \<^verbatim>\<open>len(values)\<close> raises
  \<^verbatim>\<open>UnboundLocalError\<close>, which the handler of the image catches. With two variable
  fields and the result \<^verbatim>\<open>['1', '2']\<close> for the only image, the run ends without an
  exception, the algorithm was called, and no row was produced, written or posted.
\<close>

theorem process_files_list_result_unbound:
  "(case process_files two_vars_conf (initialized two_vars_conf)
           (example_platform (\<lambda>px. Inr (CList [''1'', ''2''])))
           ''B73'' ''Exp1'' ''2020-06-01'' ''Plot_12'' [''/data/plot.tif''] [] fresh_world of
      (ex, st, w) \<Rightarrow>
        ex = None \<and> calc_calls st = [''/data/plot.tif''] \<and> bety_rows st = [] \<and>
        bound_values st = None \<and> posted w = [] \<and>
        disk w ''/data/Exp1_canopy_cover.csv'' = None)"
  by code_simp

text \<open>
  C8 as stated fails: with two usable images for which the algorithm returns a scalar
  (one variable field), the algorithm is called for the first image only; nothing
  failed for the second, the loop left it out.
\<close>

theorem process_files_second_image_not_processed:
  "(case process_files example_conf (initialized example_conf)
           (example_platform (\<lambda>px. Inr (COther ''0.42'')))
           ''B73'' ''Exp1'' ''2020-06-01'' ''Plot_12''
           [''/data/plot.tif'', ''/data/plot2.tif''] [] fresh_world of
      (ex, st, w) \<Rightarrow>
        ex = None \<and> calc_calls st = [''/data/plot.tif''] \<and> length (bety_rows st) = 1)"
  by code_simp

text \<open>
  C8, amended. In a run of \<^verbatim>\<open>process_files\<close> the algorithm is called for the usable
  images in order, up to and including the first image whose result reconciles with
  the variable fields, and for no image after it; an image whose pixels cannot be read
  is passed over without a call. The run produces one trait row when there is such an
  image and CSV writing or the upload is enabled, and no row otherwise.
\<close>

theorem process_files_first_success_only:
  assumes "load_image_files (p_geo pf) images_list = Inr loaded"
    and "FIELD_NAME_LIST g = Some names"
    and "process_files conf g pf germplasm experiment timestamp plot images_list metadata_list w
           = (ex, st, w')"
  shows "calc_calls st = filter (readable pf) (upto_first (reconciles pf names) (map fst loaded)) \<and>
    length (bety_rows st) =
      (if (\<exists>f \<in> set (map fst loaded). reconciles pf names f) \<and>
          (NEVER_WRITE_CSV conf \<noteq> Some True \<or> NEVER_WRITE_BETYDB conf \<noteq> Some True)
       then 1 else 0)"
proof (cases "loaded = []")
  case True
  with assms show ?thesis
    by (auto simp: process_files_def empty_state_def upto_first_def)
next
  case False
  obtain flds traits where tab: "get_bety_traits_table g = Inr (flds, traits)"
    using assms(2) by (simp add: get_bety_traits_table_def get_bety_fields_def)
  let ?rc = "\<lparr>rc_globals = g, field_name_list = names,
                                 create_csv_files = unless_never (NEVER_WRITE_CSV conf),
                                 store_in_betydb = unless_never (NEVER_WRITE_BETYDB conf),
                                 experiment_name = experiment, plot_name = plot,
                                 localtime = local_time timestamp, bety_fields = flds,
                                 bety_csv_header = join '','' flds,
                                 num_loaded_files = length loaded,
                                 metadata = load_metadata (p_json_load pf) metadata_list\<rparr>"
  let ?st0 = "empty_state\<lparr>bety_traits :=
                                   AList.update ''species'' (TStr germplasm) traits\<rparr>"
  obtain e1 s1 w1 where loop: "images_loop pf ?rc (map fst loaded) ?st0 w = (e1, s1, w1)"
    by (cases "images_loop pf ?rc (map fst loaded) ?st0 w")
  from assms False tab loop have "st = s1"
    unfolding process_files_def Let_def
    by (auto split: option.splits if_splits prod.splits sum.splits)
  have s0: "stale ?rc ?st0" by (simp add: stale_def empty_state_def)
  have sh: "num_loaded_files ?rc > 1 \<or> length (map fst loaded) \<le> 1"
    by auto
  have fl: "create_csv_files ?rc \<or> store_in_betydb ?rc \<longleftrightarrow>
      NEVER_WRITE_CSV conf \<noteq> Some True \<or> NEVER_WRITE_BETYDB conf \<noteq> Some True"
    by (auto simp: unless_never_def split: option.splits)
  have nm: "field_name_list ?rc = names" by simp
  have c0: "calc_calls ?st0 = []" "bety_rows ?st0 = []" by (simp_all add: empty_state_def)
  from images_loop_effect [OF loop s0 sh] \<open>st = s1\<close> fl nm c0 show ?thesis by simp
qed

theorem process_files_first_success_only_witness:
  "calc_calls (fst (snd (process_files example_conf (initialized example_conf)
       (example_platform (\<lambda>px. if px = [14] then Inr (CList [''1'']) else Inr (COther ''0.42'')))
       ''B73'' ''Exp1'' ''2020-06-01'' ''Plot_12''
       [''/data/plot.tif'', ''/data/plot2.tif'', ''/data/plot3.tif''] [] fresh_world)))
     = [''/data/plot.tif'', ''/data/plot2.tif''] \<and>
   length (bety_rows (fst (snd (process_files example_conf (initialized example_conf)
       (example_platform (\<lambda>px. if px = [14] then Inr (CList [''1'']) else Inr (COther ''0.42'')))
       ''B73'' ''Exp1'' ''2020-06-01'' ''Plot_12''
       [''/data/plot.tif'', ''/data/plot2.tif'', ''/data/plot3.tif''] [] fresh_world)))) = 1"
proof -
  let ?pf = "example_platform
      (\<lambda>px. if px = [14] then Inr (CList [''1'']) else Inr (COther ''0.42''))"
  let ?imgs = "[''/data/plot.tif'', ''/data/plot2.tif'', ''/data/plot3.tif'']"
  let ?sq = "\<lparr>ring = [(Fin 0, Fin 1), (Fin 1, Fin 1), (Fin 1, Fin 0), (Fin 0, Fin 0),
                        (Fin 0, Fin 1)], spatial_ref = 4326\<rparr>"
  let ?run = "process_files example_conf (initialized example_conf) ?pf
       ''B73'' ''Exp1'' ''2020-06-01'' ''Plot_12'' ?imgs [] fresh_world"
  have l: "load_image_files (p_geo ?pf) ?imgs =
      Inr [(''/data/plot.tif'', ?sq), (''/data/plot2.tif'', ?sq), (''/data/plot3.tif'', ?sq)]"
    by code_simp
  have n: "FIELD_NAME_LIST (initialized example_conf) = Some [''canopy_cover'']"
    by code_simp
  have r: "?run = (fst ?run, fst (snd ?run), snd (snd ?run))" by simp
  have c: "filter (readable ?pf) (upto_first (reconciles ?pf [''canopy_cover''])
        (map fst [(''/data/plot.tif'', ?sq), (''/data/plot2.tif'', ?sq), (''/data/plot3.tif'', ?sq)]))
      = [''/data/plot.tif'', ''/data/plot2.tif'']"
    by code_simp
  have e: "(\<exists>f \<in> set (map fst [(''/data/plot.tif'', ?sq), (''/data/plot2.tif'', ?sq),
                (''/data/plot3.tif'', ?sq)]). reconciles ?pf [''canopy_cover''] f) \<and>
      (NEVER_WRITE_CSV example_conf \<noteq> Some True \<or> NEVER_WRITE_BETYDB example_conf \<noteq> Some True)"
    by code_simp
  from process_files_first_success_only [OF l n r] c e show ?thesis by simp
qed

end
